theory Spec2Isabelle
  imports Complex_Main
begin

section \<open>The Safe factory of safe-core-sdk (safeFactory/index.ts)\<close>

text \<open>
  A shallow embedding of the class \<open>SafeFactory\<close>. The class talks to three external
  collaborators: the Ethereum adapter, the two contract handles the adapter returns, and
  \<open>Safe.create\<close>. Every call on a collaborator is an event appended to a trace, and the
  collaborator's answer is a function of the trace so far (the history of the run) and of
  the call's arguments, so that the answer of \<open>isContractDeployed\<close> after a
  \<open>createProxy\<close> may differ from the answer before it. A rejected promise or a thrown
  exception is the left summand of the result.

  A number the caller supplies (a threshold, a payment, a salt, a gas amount) is an
  integer. The default salt is computed as the program computes it, in IEEE 754 double
  precision: every product and sum is rounded to the nearest double, ties to even.
\<close>

subsection \<open>Errors\<close>

datatype error =
    Error string          \<comment> \<open>\<open>new Error(message)\<close>\<close>
  | TypeError             \<comment> \<open>a member access on an \<open>undefined\<close> private field\<close>
  | InvalidConfiguration  \<comment> \<open>what the configuration validator raises (the spec's name)\<close>

subsection \<open>Data\<close>

type_synonym SafeVersion = string

typedecl AbiItem

text \<open>A value of type \<open>number | string\<close>, and its truthiness when it may be absent.\<close>

datatype num_or_str = Num int | Str string

fun truthy :: "num_or_str option \<Rightarrow> bool" where
  "truthy None = False"
| "truthy (Some (Num n)) = (n \<noteq> 0)"
| "truthy (Some (Str s)) = (s \<noteq> [])"

text \<open>An optional field is \<open>None\<close> when the property is absent (\<open>undefined\<close>).\<close>

record SafeAccountConfig =
  owners :: "string list"
  threshold :: int
  to :: "string option"
  data :: "string option"
  fallbackHandler :: "string option"
  paymentToken :: "string option"
  payment :: "int option"
  paymentReceiver :: "string option"

text \<open>
  The interface declares \<open>saltNonce: number\<close>; the field is optional here because
  \<open>deploySafe\<close> reads it with \<open>?.\<close> and \<open>??\<close>, which also handle a missing value.
\<close>

record SafeDeploymentConfig =
  saltNonce :: "int option"

text \<open>
  Modelled from the spec: the interface \<open>TransactionOptions\<close> of the types package is not
  under src/. The spec lists a sender override and the gas fields; \<open>deploySafe\<close> reads
  \<open>gas\<close> and \<open>gasLimit\<close> and spreads the whole object. The spread copies a property
  that is present even when its value is \<open>undefined\<close>, so the property \<open>from\<close> is
  \<open>None\<close> when absent, \<open>Some None\<close> when present with the value \<open>undefined\<close>, and
  \<open>Some (Some sender)\<close> otherwise.
\<close>

record TransactionOptions =
  from_address :: "string option option"   \<comment> \<open>the property \<open>from\<close>\<close>
  gas :: "num_or_str option"
  gasLimit :: "num_or_str option"
  gasPrice :: "num_or_str option"

record DeploySafeProps =
  safeAccountConfig :: SafeAccountConfig
  safeDeploymentConfig :: "SafeDeploymentConfig option"
  options :: "TransactionOptions option"

text \<open>
  The fields of \<open>ContractNetworkConfig\<close> (../types, not under src/) that this file reads.
\<close>

record ContractNetworkConfig =
  safeMasterCopyAddress :: string
  safeMasterCopyAbi :: "AbiItem list option"
  safeProxyFactoryAddress :: string
  safeProxyFactoryAbi :: "AbiItem list option"

type_synonym ContractNetworksConfig = "int \<rightharpoonup> ContractNetworkConfig"

subsection \<open>Calls on the collaborators\<close>

text \<open>
  The argument object of \<open>ethAdapter.getSafeContract\<close> and of
  \<open>ethAdapter.getSafeProxyFactoryContract\<close>. The type \<open>'d\<close> is the deployment record of
  the safe-deployments package.
\<close>

record 'd GetContractProps =
  arg_safeVersion :: SafeVersion
  arg_chainId :: int
  arg_singletonDeployment :: "'d option"
  arg_customContractAddress :: "string option"
  arg_customContractAbi :: "AbiItem list option"

text \<open>The argument object of \<open>createProxy\<close>.\<close>

record CreateProxyProps =
  cp_safeMasterCopyAddress :: string
  cp_initializer :: string
  cp_saltNonce :: int
  cp_options :: TransactionOptions

text \<open>
  The argument object of \<open>Safe.create\<close>, without the adapter (the one adapter of the run).
\<close>

record SafeConfig =
  new_safeAddress :: string
  new_isL1SafeMasterCopy :: "bool option"
  new_contractNetworks :: "ContractNetworksConfig option"

text \<open>An argument of \<open>encode\<close>: a string array, a number or a string.\<close>

datatype js_arg = AStrs "string list" | ANum int | AStr string

datatype 'd event =
    GetChainId
  | GetSafeProxyFactoryContract "'d GetContractProps"
  | GetSafeContract "'d GetContractProps"
  | IsContractDeployed string
  | GetSignerAddress
  | Encode string "js_arg list"
  | CreateProxy CreateProxyProps
  | SafeCreate SafeConfig

record GnosisSafeContract =
  safe_getAddress :: string
  safe_encode :: "string \<Rightarrow> js_arg list \<Rightarrow> error + string"

record 'd GnosisSafeProxyFactoryContract =
  factory_getAddress :: string
  factory_createProxy :: "'d event list \<Rightarrow> CreateProxyProps \<Rightarrow> error + string"

record 'd EthAdapter =
  getChainId :: "'d event list \<Rightarrow> error + int"
  getSignerAddress :: "'d event list \<Rightarrow> error + string"
  isContractDeployed :: "'d event list \<Rightarrow> string \<Rightarrow> error + bool"
  getSafeContract ::
    "'d event list \<Rightarrow> 'd GetContractProps \<Rightarrow> error + GnosisSafeContract"
  getSafeProxyFactoryContract ::
    "'d event list \<Rightarrow> 'd GetContractProps \<Rightarrow> error + 'd GnosisSafeProxyFactoryContract"

text \<open>
  What the file imports from modules that are not under src/, taken as parameters:
  the constants of ../contracts/config and ../utils/constants, the two tables of
  ../contracts/safeDeploymentContracts, \<open>Safe.create\<close>, and the test of an address's
  form that the configuration validator needs (the spec does not define it).
\<close>

record ('d, 'safe) module_imports =
  SAFE_LAST_VERSION :: SafeVersion
  ZERO_ADDRESS :: string
  EMPTY_DATA :: string
  getSafeContractDeployment :: "SafeVersion \<Rightarrow> int \<Rightarrow> bool option \<Rightarrow> 'd option"
  getSafeProxyFactoryContractDeployment :: "SafeVersion \<Rightarrow> int \<Rightarrow> 'd option"
  Safe_create :: "'d event list \<Rightarrow> SafeConfig \<Rightarrow> error + 'safe"
  isAddress :: "string \<Rightarrow> bool"

subsection \<open>Double precision\<close>

text \<open>
  The arithmetic of the default salt, \<open>Date.now() * 1000 + Math.floor(Math.random() * 1000)\<close>,
  on nonnegative integers and on binary fractions. \<open>bit_length n\<close> is the number of
  binary digits of \<open>n\<close>. \<open>round53\<close> rounds to 53 significant binary digits, to the nearest
  such number and to the even one of two that are equally near: the rounding of a double's
  significand. The values here are far below the overflow threshold.
\<close>

fun bit_length :: "nat \<Rightarrow> nat" where
  "bit_length n = (if n = 0 then 0 else Suc (bit_length (n div 2)))"

definition round53 :: "nat \<Rightarrow> nat" where
  "round53 n =
     (if n < 2 ^ 53 then n
      else (let s = bit_length n - 53; q = n div 2 ^ s; r = n mod 2 ^ s
            in (if 2 ^ s < 2 * r \<or> (2 * r = 2 ^ s \<and> odd q) then q + 1 else q) * 2 ^ s))"

text \<open>The double nearest to an integer; rounding is symmetric about zero.\<close>

definition round_to_double :: "int \<Rightarrow> int" where
  "round_to_double n =
     (if n < 0 then - int (round53 (nat (- n))) else int (round53 (nat n)))"

text \<open>
  A nonnegative double below 1 is \<open>numerator / 2 ^ scale\<close> with a scale of at most 1074
  (the exponent of the least subnormal) and a numerator of at most 53 significant digits.
  In the unit \<open>2 ^ - scale\<close> every number of at most 53 significant digits is a double, so
  the product with an integer is the rounded product of the numerators.
\<close>

record fraction =
  numerator :: nat
  scale :: nat

definition fraction_times :: "fraction \<Rightarrow> nat \<Rightarrow> fraction" where
  "fraction_times x k = \<lparr> numerator = round53 (numerator x * k), scale = scale x \<rparr>"

definition Math_floor :: "fraction \<Rightarrow> int" where
  "Math_floor x = int (numerator x div 2 ^ scale x)"

text \<open>
  What \<open>Date.now()\<close> and \<open>Math.random()\<close> return during one call of \<open>deploySafe\<close>:
  a time value, which is an integer of milliseconds below \<open>2 ^ 53\<close> in magnitude and so a
  double, and a double of \<open>[0, 1)\<close>.
\<close>

record runtime =
  Date_now :: int
  Math_random :: fraction

subsection \<open>Running a computation over the trace\<close>

type_synonym ('d, 'a) run = "'d event list \<Rightarrow> (error + 'a) \<times> 'd event list"

definition return :: "'a \<Rightarrow> ('d, 'a) run" where
  "return x = (\<lambda>tr. (Inr x, tr))"

definition throw :: "error \<Rightarrow> ('d, 'a) run" where
  "throw e = (\<lambda>tr. (Inl e, tr))"

definition bind :: "('d, 'a) run \<Rightarrow> ('a \<Rightarrow> ('d, 'b) run) \<Rightarrow> ('d, 'b) run" where
  "bind m f = (\<lambda>tr. case m tr of (Inl e, tr') \<Rightarrow> (Inl e, tr') | (Inr x, tr') \<Rightarrow> f x tr')"

text \<open>
  A call on a collaborator: the answer is computed from the trace before the call, and the
  call is appended to the trace whether it succeeds or fails.
\<close>

definition call :: "'d event \<Rightarrow> ('d event list \<Rightarrow> error + 'a) \<Rightarrow> ('d, 'a) run" where
  "call ev answer = (\<lambda>tr. (answer tr, tr @ [ev]))"

subsection \<open>The factory instance\<close>

text \<open>
  The private fields. \<open>new SafeFactory()\<close> leaves every one of them \<open>undefined\<close>; \<open>init\<close>
  assigns them one after the other.
\<close>

record 'd SafeFactory =
  priv_contractNetworks :: "ContractNetworksConfig option"
  priv_isL1SafeMasterCopy :: "bool option"
  priv_safeVersion :: "SafeVersion option"
  priv_ethAdapter :: "'d EthAdapter option"
  priv_safeProxyFactoryContract :: "'d GnosisSafeProxyFactoryContract option"
  priv_gnosisSafeContract :: "GnosisSafeContract option"

definition new_SafeFactory :: "'d SafeFactory" where
  "new_SafeFactory =
     \<lparr> priv_contractNetworks = None, priv_isL1SafeMasterCopy = None, priv_safeVersion = None,
       priv_ethAdapter = None, priv_safeProxyFactoryContract = None,
       priv_gnosisSafeContract = None \<rparr>"

record 'd SafeFactoryConfig =
  ethAdapter :: "'d EthAdapter"
  safeVersion :: "SafeVersion option"
  isL1SafeMasterCopy :: "bool option"
  contractNetworks :: "ContractNetworksConfig option"

subsection \<open>Resolving the two contracts\<close>

definition getSafeContract' ::
  "('d, 'safe) module_imports \<Rightarrow> 'd SafeFactory \<Rightarrow> 'd EthAdapter \<Rightarrow> SafeVersion \<Rightarrow> int \<Rightarrow>
   bool option \<Rightarrow> ContractNetworkConfig option \<Rightarrow> ('d, GnosisSafeContract) run" where
  "getSafeContract' imp this ethAdapter' safeVersion' chainId isL1SafeMasterCopy'
     customContracts =
    (let safeSingletonDeployment =
           getSafeContractDeployment imp (SAFE_LAST_VERSION imp) chainId isL1SafeMasterCopy';
         props = \<lparr> arg_safeVersion = safeVersion', arg_chainId = chainId,
                   arg_singletonDeployment = safeSingletonDeployment,
                   arg_customContractAddress = map_option safeMasterCopyAddress customContracts,
                   arg_customContractAbi =
                     Option.bind customContracts safeMasterCopyAbi \<rparr>
     in bind (call (GetSafeContract props) (\<lambda>tr. getSafeContract ethAdapter' tr props))
          (\<lambda>gnosisSafeContract.
             case priv_ethAdapter this of
               None \<Rightarrow> throw TypeError
             | Some adapter \<Rightarrow>
                 bind (call (IsContractDeployed (safe_getAddress gnosisSafeContract))
                         (\<lambda>tr. isContractDeployed adapter tr (safe_getAddress gnosisSafeContract)))
                   (\<lambda>isDeployed.
                      if \<not> isDeployed
                      then throw (Error ''Safe Proxy contract is not deployed in the current network'')
                      else return gnosisSafeContract)))"

definition getProxyFactoryContract ::
  "('d, 'safe) module_imports \<Rightarrow> 'd SafeFactory \<Rightarrow> 'd EthAdapter \<Rightarrow> SafeVersion \<Rightarrow> int \<Rightarrow>
   ContractNetworkConfig option \<Rightarrow> ('d, 'd GnosisSafeProxyFactoryContract) run" where
  "getProxyFactoryContract imp this ethAdapter' safeVersion' chainId customContracts =
    (let proxyFactoryDeployment = getSafeProxyFactoryContractDeployment imp safeVersion' chainId;
         props = \<lparr> arg_safeVersion = safeVersion', arg_chainId = chainId,
                   arg_singletonDeployment = proxyFactoryDeployment,
                   arg_customContractAddress = map_option safeProxyFactoryAddress customContracts,
                   arg_customContractAbi =
                     Option.bind customContracts safeProxyFactoryAbi \<rparr>
     in bind (call (GetSafeProxyFactoryContract props)
                (\<lambda>tr. getSafeProxyFactoryContract ethAdapter' tr props))
          (\<lambda>safeProxyFactoryContract.
             case priv_ethAdapter this of
               None \<Rightarrow> throw TypeError
             | Some adapter \<Rightarrow>
                 bind (call (IsContractDeployed (factory_getAddress safeProxyFactoryContract))
                         (\<lambda>tr. isContractDeployed adapter tr
                                 (factory_getAddress safeProxyFactoryContract)))
                   (\<lambda>isDeployed.
                      if \<not> isDeployed
                      then throw (Error ''Safe Proxy Factory contract is not deployed in the current network'')
                      else return safeProxyFactoryContract)))"

subsection \<open>Construction\<close>

text \<open>
  \<open>init\<close> assigns the private fields of \<open>this\<close>; the instance as it stands when \<open>init\<close>
  returns or throws is the second component of the result.
\<close>

definition init ::
  "('d, 'safe) module_imports \<Rightarrow> 'd SafeFactory \<Rightarrow> 'd EthAdapter \<Rightarrow> SafeVersion \<Rightarrow>
   bool option \<Rightarrow> ContractNetworksConfig option \<Rightarrow> 'd event list \<Rightarrow>
   (error + unit) \<times> 'd SafeFactory \<times> 'd event list" where
  "init imp this ethAdapter' safeVersion' isL1SafeMasterCopy' contractNetworks' tr =
    (let this1 = this \<lparr> priv_ethAdapter := Some ethAdapter',
                        priv_safeVersion := Some safeVersion',
                        priv_isL1SafeMasterCopy := isL1SafeMasterCopy',
                        priv_contractNetworks := contractNetworks' \<rparr>
     in case call GetChainId (getChainId ethAdapter') tr of
          (Inl e, tr1) \<Rightarrow> (Inl e, this1, tr1)
        | (Inr chainId, tr1) \<Rightarrow>
            (let customContracts = Option.bind contractNetworks' (\<lambda>networks. networks chainId)
             in case getProxyFactoryContract imp this1 ethAdapter' safeVersion' chainId
                       customContracts tr1 of
                  (Inl e, tr2) \<Rightarrow> (Inl e, this1, tr2)
                | (Inr factoryContract, tr2) \<Rightarrow>
                    (let this2 = this1 \<lparr> priv_safeProxyFactoryContract := Some factoryContract \<rparr>
                     in case getSafeContract' imp this2 ethAdapter' safeVersion' chainId
                               isL1SafeMasterCopy' customContracts tr2 of
                          (Inl e, tr3) \<Rightarrow> (Inl e, this2, tr3)
                        | (Inr safeContract, tr3) \<Rightarrow>
                            (Inr (), this2 \<lparr> priv_gnosisSafeContract := Some safeContract \<rparr>,
                             tr3))))"

definition create ::
  "('d, 'safe) module_imports \<Rightarrow> 'd SafeFactoryConfig \<Rightarrow> ('d, 'd SafeFactory) run" where
  "create imp config tr =
    (let safeVersion' = (case safeVersion config of None \<Rightarrow> SAFE_LAST_VERSION imp | Some v \<Rightarrow> v);
         isL1SafeMasterCopy' = (case isL1SafeMasterCopy config of None \<Rightarrow> False | Some b \<Rightarrow> b);
         safeFactorySdk = new_SafeFactory
     in case init imp safeFactorySdk (ethAdapter config) safeVersion' (Some isL1SafeMasterCopy')
               (contractNetworks config) tr of
          (Inl e, _, tr') \<Rightarrow> (Inl e, tr')
        | (Inr _, safeFactorySdk', tr') \<Rightarrow> (Inr safeFactorySdk', tr'))"

subsection \<open>Deployment\<close>

text \<open>
  Modelled from the spec: \<open>validateSafeAccountConfig\<close> of ./utils is not under src/. The
  spec's Config Validator fails with \<open>InvalidConfiguration\<close> when the owners are empty,
  when an owner address is malformed or the zero address, when an owner occurs twice, or
  when the threshold is outside \<open>[1, owners.length]\<close>. \<open>None\<close> is a normal return.
\<close>

definition validateSafeAccountConfig ::
  "('d, 'safe) module_imports \<Rightarrow> SafeAccountConfig \<Rightarrow> error option" where
  "validateSafeAccountConfig imp config =
    (if owners config = []
        \<or> list_ex (\<lambda>owner. \<not> isAddress imp owner \<or> owner = ZERO_ADDRESS imp) (owners config)
        \<or> \<not> distinct (owners config)
        \<or> threshold config < 1
        \<or> int (length (owners config)) < threshold config
     then Some InvalidConfiguration else None)"

definition encodeSetupCallData ::
  "('d, 'safe) module_imports \<Rightarrow> 'd SafeFactory \<Rightarrow> SafeAccountConfig \<Rightarrow> ('d, string) run" where
  "encodeSetupCallData imp this config =
    (let to' = (case to config of None \<Rightarrow> ZERO_ADDRESS imp | Some a \<Rightarrow> a);
         data' = (case data config of None \<Rightarrow> EMPTY_DATA imp | Some d \<Rightarrow> d);
         fallbackHandler' =
           (case fallbackHandler config of None \<Rightarrow> ZERO_ADDRESS imp | Some a \<Rightarrow> a);
         paymentToken' = (case paymentToken config of None \<Rightarrow> ZERO_ADDRESS imp | Some a \<Rightarrow> a);
         payment' = (case payment config of None \<Rightarrow> 0 | Some n \<Rightarrow> n);
         paymentReceiver' =
           (case paymentReceiver config of None \<Rightarrow> ZERO_ADDRESS imp | Some a \<Rightarrow> a);
         args = [AStrs (owners config), ANum (threshold config), AStr to', AStr data',
                 AStr fallbackHandler', AStr paymentToken', ANum payment',
                 AStr paymentReceiver']
     in case priv_gnosisSafeContract this of
          None \<Rightarrow> throw TypeError
        | Some safeContract \<Rightarrow>
            call (Encode ''setup'' args) (\<lambda>tr. safe_encode safeContract ''setup'' args))"

definition deploySafe ::
  "('d, 'safe) module_imports \<Rightarrow> runtime \<Rightarrow> 'd SafeFactory \<Rightarrow> DeploySafeProps \<Rightarrow>
   ('d, 'safe) run" where
  "deploySafe imp rt this props =
    (case validateSafeAccountConfig imp (safeAccountConfig props) of
       Some e \<Rightarrow> throw e
     | None \<Rightarrow>
        (case priv_ethAdapter this of
           None \<Rightarrow> throw TypeError
         | Some adapter \<Rightarrow>
    bind (call GetSignerAddress (getSignerAddress adapter)) (\<lambda>signerAddress.
    bind (encodeSetupCallData imp this (safeAccountConfig props)) (\<lambda>initializer.
    (let saltNonce' =
           (case Option.bind (safeDeploymentConfig props) saltNonce of
              Some n \<Rightarrow> n
            | None \<Rightarrow>
                round_to_double
                  (round_to_double (Date_now rt * 1000)
                   + Math_floor (fraction_times (Math_random rt) 1000)))
     in if truthy (Option.bind (options props) gas)
           \<and> truthy (Option.bind (options props) gasLimit)
        then throw (Error ''Cannot specify gas and gasLimit together in transaction options'')
        else
          (case priv_safeProxyFactoryContract this of
             None \<Rightarrow> throw TypeError
           | Some factoryContract \<Rightarrow>
          (case priv_gnosisSafeContract this of
             None \<Rightarrow> throw TypeError
           | Some safeContract \<Rightarrow>
    (let createProps =
           \<lparr> cp_safeMasterCopyAddress = safe_getAddress safeContract,
             cp_initializer = initializer,
             cp_saltNonce = saltNonce',
             cp_options =
               (case options props of
                  None \<Rightarrow> \<lparr> from_address = Some (Some signerAddress), gas = None,
                             gasLimit = None, gasPrice = None \<rparr>
                | Some given \<Rightarrow>
                    given \<lparr> from_address :=
                              (case from_address given of
                                 None \<Rightarrow> Some (Some signerAddress)
                               | Some sender \<Rightarrow> Some sender) \<rparr>) \<rparr>
     in
    bind (call (CreateProxy createProps) (\<lambda>tr. factory_createProxy factoryContract tr createProps))
      (\<lambda>safeAddress.
    bind (call (IsContractDeployed safeAddress) (\<lambda>tr. isContractDeployed adapter tr safeAddress))
      (\<lambda>isDeployed.
    if \<not> isDeployed
    then throw (Error ''Safe Proxy contract is not deployed in the current network'')
    else
      (let safeConfig = \<lparr> new_safeAddress = safeAddress,
                           new_isL1SafeMasterCopy = priv_isL1SafeMasterCopy this,
                           new_contractNetworks = priv_contractNetworks this \<rparr>
       in call (SafeCreate safeConfig) (\<lambda>tr. Safe_create imp tr safeConfig))))))))))))"

subsection \<open>A concrete chain\<close>

text \<open>
  An adapter over a chain on which exactly the addresses of \<open>code\<close> host code, with chain
  identifier 1, and a deployment table that labels each record with the version and the
  chain it was looked up for. They are the concrete inputs of the evaluations below.
\<close>

definition example_safe_contract :: GnosisSafeContract where
  "example_safe_contract =
     \<lparr> safe_getAddress = ''0xSingleton'', safe_encode = (\<lambda>name args. Inr ''0xSetup'') \<rparr>"

definition example_factory_contract ::
  "(SafeVersion \<times> int) GnosisSafeProxyFactoryContract" where
  "example_factory_contract =
     \<lparr> factory_getAddress = ''0xFactory'',
       factory_createProxy = (\<lambda>tr props. Inr ''0xProxy'') \<rparr>"

definition example_adapter :: "string list \<Rightarrow> (SafeVersion \<times> int) EthAdapter" where
  "example_adapter code =
     \<lparr> getChainId = (\<lambda>tr. Inr 1),
       getSignerAddress = (\<lambda>tr. Inr ''0xSigner''),
       isContractDeployed = (\<lambda>tr address. Inr (address \<in> set code)),
       getSafeContract = (\<lambda>tr props. Inr example_safe_contract),
       getSafeProxyFactoryContract = (\<lambda>tr props. Inr example_factory_contract) \<rparr>"

definition example_imports :: "(SafeVersion \<times> int, string) module_imports" where
  "example_imports =
     \<lparr> SAFE_LAST_VERSION = ''1.3.0'', ZERO_ADDRESS = ''0x0'', EMPTY_DATA = ''0x'',
       getSafeContractDeployment = (\<lambda>version chainId isL1. Some (version, chainId)),
       getSafeProxyFactoryContractDeployment = (\<lambda>version chainId. Some (version, chainId)),
       Safe_create = (\<lambda>tr config. Inr (new_safeAddress config)),
       isAddress = (\<lambda>address. True) \<rparr>"

definition example_config ::
  "string list \<Rightarrow> SafeVersion option \<Rightarrow> (SafeVersion \<times> int) SafeFactoryConfig" where
  "example_config code version =
     \<lparr> ethAdapter = example_adapter code, safeVersion = version,
       isL1SafeMasterCopy = None, contractNetworks = None \<rparr>"

text \<open>The instance that \<open>create\<close> returns on that chain (lemma \<open>example_create\<close>).\<close>

definition example_factory :: "string list \<Rightarrow> (SafeVersion \<times> int) SafeFactory" where
  "example_factory code =
     \<lparr> priv_contractNetworks = None, priv_isL1SafeMasterCopy = Some False,
       priv_safeVersion = Some ''1.3.0'', priv_ethAdapter = Some (example_adapter code),
       priv_safeProxyFactoryContract = Some example_factory_contract,
       priv_gnosisSafeContract = Some example_safe_contract \<rparr>"

definition example_account :: "string list \<Rightarrow> int \<Rightarrow> SafeAccountConfig" where
  "example_account owners' threshold' =
     \<lparr> owners = owners', threshold = threshold', to = None, data = None,
       fallbackHandler = None, paymentToken = None, payment = None, paymentReceiver = None \<rparr>"

definition example_runtime :: runtime where
  "example_runtime =
     \<lparr> Date_now = 1700000000000, Math_random = \<lparr> numerator = 1, scale = 2 \<rparr> \<rparr>"

text \<open>A clock of the year 2255 and the random number 1023/1024.\<close>

definition example_late_runtime :: runtime where
  "example_late_runtime =
     \<lparr> Date_now = 9007199254741, Math_random = \<lparr> numerator = 1023, scale = 10 \<rparr> \<rparr>"

definition example_props ::
  "string list \<Rightarrow> int \<Rightarrow> int option option \<Rightarrow> TransactionOptions option \<Rightarrow> DeploySafeProps"
  where
  "example_props owners' threshold' salt options' =
     \<lparr> safeAccountConfig = example_account owners' threshold',
       safeDeploymentConfig = map_option (\<lambda>n. \<lparr> saltNonce = n \<rparr>) salt,
       options = options' \<rparr>"

text \<open>What the runs on that chain are expected to hand to the collaborators.\<close>

definition example_setup :: "(SafeVersion \<times> int) event" where
  "example_setup =
     Encode ''setup''
       [AStrs [''0xA'', ''0xB''], ANum 2, AStr ''0x0'', AStr ''0x'', AStr ''0x0'',
        AStr ''0x0'', ANum 0, AStr ''0x0'']"

definition example_sender :: TransactionOptions where
  "example_sender =
     \<lparr> from_address = Some (Some ''0xSigner''), gas = None, gasLimit = None,
       gasPrice = None \<rparr>"

definition example_gas :: "int \<Rightarrow> int \<Rightarrow> TransactionOptions" where
  "example_gas fixed limit =
     \<lparr> from_address = None, gas = Some (Num fixed), gasLimit = Some (Num limit),
       gasPrice = None \<rparr>"

definition example_proxy_props :: "int \<Rightarrow> TransactionOptions \<Rightarrow> CreateProxyProps" where
  "example_proxy_props salt options' =
     \<lparr> cp_safeMasterCopyAddress = ''0xSingleton'', cp_initializer = ''0xSetup'',
       cp_saltNonce = salt, cp_options = options' \<rparr>"

definition example_safe_config :: SafeConfig where
  "example_safe_config =
     \<lparr> new_safeAddress = ''0xProxy'', new_isL1SafeMasterCopy = Some False,
       new_contractNetworks = None \<rparr>"

definition example_factory_lookup :: "(SafeVersion \<times> int) event" where
  "example_factory_lookup =
     GetSafeProxyFactoryContract
       \<lparr> arg_safeVersion = ''1.3.0'', arg_chainId = 1,
         arg_singletonDeployment = Some (''1.3.0'', 1),
         arg_customContractAddress = None, arg_customContractAbi = None \<rparr>"

definition example_singleton_lookup :: "(SafeVersion \<times> int) event" where
  "example_singleton_lookup =
     GetSafeContract
       \<lparr> arg_safeVersion = ''1.3.0'', arg_chainId = 1,
         arg_singletonDeployment = Some (''1.3.0'', 1),
         arg_customContractAddress = None, arg_customContractAbi = None \<rparr>"

section \<open>Properties\<close>

lemmas run_defs = bind_def call_def throw_def return_def

lemmas example_defs =
  example_safe_contract_def example_factory_contract_def example_adapter_def
  example_imports_def example_config_def example_factory_def example_account_def
  example_runtime_def example_late_runtime_def example_props_def example_setup_def example_sender_def example_gas_def
  example_proxy_props_def example_safe_config_def example_factory_lookup_def
  example_singleton_lookup_def

lemmas create_defs =
  create_def init_def getProxyFactoryContract_def getSafeContract'_def new_SafeFactory_def

lemmas deploy_defs = deploySafe_def encodeSetupCallData_def validateSafeAccountConfig_def

lemma example_create:
  "fst (create example_imports
          (example_config [''0xFactory'', ''0xSingleton'', ''0xProxy''] None) [])
   = Inr (example_factory [''0xFactory'', ''0xSingleton'', ''0xProxy''])"
  by (simp add: create_defs run_defs example_defs Let_def)

subsection \<open>Double precision\<close>

declare bit_length.simps [simp del]

text \<open>
  Two values of the arithmetic: the product of \<open>2805742567851819 / 2 ^ 52\<close> with 1000
  rounds up to 623, and an odd integer above \<open>2 ^ 53\<close> rounds to the even neighbour.
\<close>

lemma Math_floor_rounded_product:
  "Math_floor (fraction_times \<lparr> numerator = 2805742567851819, scale = 52 \<rparr> 1000) = 623"
  by (simp add: Math_floor_def fraction_times_def round53_def bit_length.simps Let_def)

lemma round53_ties_to_even:
  "round53 9007199254741251 = 9007199254741252"
  "round53 9007199254741999 = 9007199254742000"
  by (simp_all add: round53_def bit_length.simps Let_def)

lemma bit_length_upper: "n < 2 ^ bit_length n"
proof (induction n rule: bit_length.induct)
  case (1 n)
  show ?case
  proof (cases "n = 0")
    case True
    then show ?thesis by (simp add: bit_length.simps)
  next
    case False
    with 1 have "n div 2 < 2 ^ bit_length (n div 2)" by simp
    then have "n < 2 * 2 ^ bit_length (n div 2)" by linarith
    with False show ?thesis by (simp add: bit_length.simps [of n])
  qed
qed

lemma bit_length_lower: "0 < n \<Longrightarrow> 2 ^ (bit_length n - 1) \<le> n"
proof (induction n rule: bit_length.induct)
  case (1 n)
  show ?case
  proof (cases "n div 2 = 0")
    case True
    with 1(2) have "n = 1" by linarith
    then show ?thesis by (simp add: bit_length.simps)
  next
    case False
    with 1 have ih: "2 ^ (bit_length (n div 2) - 1) \<le> n div 2" by simp
    from False have pos: "0 < bit_length (n div 2)"
      by (simp add: bit_length.simps [of "n div 2"])
    from 1(2) have "bit_length n - 1 = bit_length (n div 2)"
      by (simp add: bit_length.simps [of n])
    also from pos have "\<dots> = Suc (bit_length (n div 2) - 1)" by simp
    finally have "(2::nat) ^ (bit_length n - 1) = 2 * 2 ^ (bit_length (n div 2) - 1)"
      by simp
    also from ih have "\<dots> \<le> 2 * (n div 2)" by simp
    also have "\<dots> \<le> n" by simp
    finally show ?thesis .
  qed
qed


lemma round53_upper:
  assumes big: "2 ^ 53 \<le> n"
  shows "round53 n \<le> n + 2 ^ (bit_length n - 54)"
proof -
  define s where "s = bit_length n - 53"
  define q where "q = n div 2 ^ s"
  define r where "r = n mod 2 ^ s"
  have n: "n = q * 2 ^ s + r"
    by (simp only: q_def r_def div_mult_mod_eq)
  have lt: "(2::nat) ^ 53 < 2 ^ bit_length n"
    using big bit_length_upper [of n] by linarith
  have "53 < bit_length n"
    by (rule power_less_imp_less_exp [OF _ lt]) simp
  then have s: "s = Suc (bit_length n - 54)"
    by (simp add: s_def)
  have round: "round53 n = (if 2 ^ s < 2 * r \<or> (2 * r = 2 ^ s \<and> odd q) then q + 1 else q) * 2 ^ s"
    using big by (simp add: round53_def Let_def s_def q_def r_def)
  show ?thesis
  proof (cases "2 ^ s < 2 * r \<or> (2 * r = 2 ^ s \<and> odd q)")
    case True
    then have "2 ^ s \<le> 2 * r"
      by auto
    with s have half: "2 ^ (bit_length n - 54) \<le> r"
      by simp
    from True round have "round53 n = q * 2 ^ s + 2 ^ s"
      by (simp add: algebra_simps)
    also from s have "\<dots> = q * 2 ^ s + 2 ^ (bit_length n - 54) + 2 ^ (bit_length n - 54)"
      by simp
    also from half have "\<dots> \<le> q * 2 ^ s + r + 2 ^ (bit_length n - 54)"
      by simp
    finally show ?thesis
      using n by simp
  next
    case False
    with round have "round53 n = q * 2 ^ s"
      by simp
    with n show ?thesis
      by simp
  qed
qed

lemma round53_product_below:
  assumes m: "m = a * 2 ^ j" and a: "a < 2 ^ 53" and below: "m < 2 ^ p"
  shows "round53 (m * 1000) < 1000 * 2 ^ p"
proof (cases "m * 1000 < 2 ^ 53")
  case True
  with below show ?thesis
    by (simp add: round53_def)
next
  case False
  let ?n = "m * 1000"
  from False have big: "2 ^ 53 \<le> ?n"
    by simp
  then have pos: "0 < ?n"
    by (cases "?n = 0") simp_all
  from big have lt: "(2::nat) ^ 53 < 2 ^ bit_length ?n"
    using bit_length_upper [of ?n] by linarith
  have long: "53 < bit_length ?n"
    by (rule power_less_imp_less_exp [OF _ lt]) simp
  from pos m have "0 < a"
    by (cases a) simp_all
  have "j \<le> p"
  proof (rule ccontr)
    assume "\<not> j \<le> p"
    then have "(2::nat) ^ p \<le> 2 ^ j"
      by (simp add: power_increasing)
    also from \<open>0 < a\<close> have "\<dots> \<le> a * 2 ^ j"
      by simp
    finally show False
      using m below by simp
  qed
  then obtain d where p: "p = j + d"
    using le_Suc_ex by blast
  with m below have "a * 2 ^ j < 2 ^ d * 2 ^ j"
    by (simp add: power_add mult.commute)
  then have "a < 2 ^ d"
    by simp
  then have "(a + 1) * 2 ^ j \<le> 2 ^ d * 2 ^ j"
    by (intro mult_right_mono) simp_all
  with m p have gap: "m + 2 ^ j \<le> 2 ^ p"
    by (simp add: power_add algebra_simps)
  have "2 ^ (bit_length ?n - 1) \<le> ?n"
    using pos by (rule bit_length_lower)
  also have "?n < 1024 * (2 ^ 53 * 2 ^ j)"
  proof -
    from a have "a * 2 ^ j < 2 ^ 53 * 2 ^ j"
      by simp
    with m have "m * 1000 < (2 ^ 53 * 2 ^ j) * 1000"
      by simp
    then show ?thesis
      by simp
  qed
  also have "\<dots> = 2 ^ (63 + j)"
    by (simp add: power_add)
  finally have lt': "(2::nat) ^ (bit_length ?n - 1) < 2 ^ (63 + j)" .
  have "bit_length ?n - 1 < 63 + j"
    by (rule power_less_imp_less_exp [OF _ lt']) simp
  with long have "bit_length ?n - 54 \<le> j + 9"
    by simp
  then have "(2::nat) ^ (bit_length ?n - 54) \<le> 2 ^ (j + 9)"
    by (simp add: power_increasing)
  also have "\<dots> = 512 * 2 ^ j"
    by (simp add: power_add)
  also have "\<dots> < 1000 * 2 ^ j"
    by simp
  finally have half: "2 ^ (bit_length ?n - 54) < 1000 * (2::nat) ^ j" .
  from round53_upper [OF big] have "round53 ?n \<le> ?n + 2 ^ (bit_length ?n - 54)" .
  also from half have "\<dots> < ?n + 1000 * 2 ^ j"
    by simp
  also from gap have "\<dots> \<le> 1000 * 2 ^ p"
    by simp
  finally show ?thesis .
qed

lemma Math_floor_random_range:
  assumes "numerator x = a * 2 ^ j" and "a < 2 ^ 53" and "numerator x < 2 ^ scale x"
  shows "0 \<le> Math_floor (fraction_times x 1000) \<and> Math_floor (fraction_times x 1000) < 1000"
proof -
  from round53_product_below [OF assms] have
    "round53 (numerator x * 1000) div 2 ^ scale x < 1000"
    by (simp add: less_mult_imp_div_less)
  then show ?thesis
    by (simp add: Math_floor_def fraction_times_def)
qed

lemma round_to_double_exact: "\<bar>n\<bar> < 2 ^ 53 \<Longrightarrow> round_to_double n = n"
  by (auto simp add: round_to_double_def round53_def)

subsection \<open>The outcomes of a run\<close>

text \<open>
  Each function has one outcome per place where the source returns or throws. The rules
  below list them, with the answers of the collaborators that lead there, the result and
  the calls made.
\<close>

lemma encodeSetupCallData_cases:
  assumes "encodeSetupCallData imp this config tr = (res, tr')"
  obtains (uninitialised) "priv_gnosisSafeContract this = None" "res = Inl TypeError" "tr' = tr"
  | (encoded) safeContract args where "priv_gnosisSafeContract this = Some safeContract"
      "res = safe_encode safeContract ''setup'' args" "tr' = tr @ [Encode ''setup'' args]"
proof (cases "priv_gnosisSafeContract this")
  case None
  with assms uninitialised show ?thesis
    by (simp add: encodeSetupCallData_def throw_def Let_def)
next
  case (Some safeContract)
  with assms have "\<exists>args. res = safe_encode safeContract ''setup'' args
                    \<and> tr' = tr @ [Encode ''setup'' args]"
    by (auto simp add: encodeSetupCallData_def call_def Let_def)
  with Some encoded show ?thesis
    by blast
qed

lemma deploySafe_cases:
  fixes imp :: "('d, 'safe) module_imports"
  assumes run: "deploySafe imp rt this props tr = (res, tr')"
  obtains
    (invalid) e where
      "validateSafeAccountConfig imp (safeAccountConfig props) = Some e"
      "res = Inl e" "tr' = tr"
  | (no_adapter) "priv_ethAdapter this = None" "res = Inl TypeError" "tr' = tr"
  | (no_signer) adapter e where
      "priv_ethAdapter this = Some adapter" "getSignerAddress adapter tr = Inl e"
      "res = Inl e" "tr' = tr @ [GetSignerAddress]"
  | (no_singleton)
      "encodeSetupCallData imp this (safeAccountConfig props) (tr @ [GetSignerAddress])
         = (Inl TypeError, tr @ [GetSignerAddress])"
      "res = Inl TypeError" "tr' = tr @ [GetSignerAddress]"
  | (not_encoded) args e where
      "encodeSetupCallData imp this (safeAccountConfig props) (tr @ [GetSignerAddress])
         = (Inl e, tr @ [GetSignerAddress, Encode ''setup'' args])"
      "res = Inl e" "tr' = tr @ [GetSignerAddress, Encode ''setup'' args]"
  | (gas_conflict) args where
      "truthy (Option.bind (options props) gas)"
      "truthy (Option.bind (options props) gasLimit)"
      "res = Inl (Error ''Cannot specify gas and gasLimit together in transaction options'')"
      "tr' = tr @ [GetSignerAddress, Encode ''setup'' args]"
  | (no_factory) args where
      "\<not> (truthy (Option.bind (options props) gas)
          \<and> truthy (Option.bind (options props) gasLimit))"
      "priv_safeProxyFactoryContract this = None"
      "res = Inl TypeError" "tr' = tr @ [GetSignerAddress, Encode ''setup'' args]"
  | (submitted) adapter factoryContract safeContract signerAddress args initializer cp where
      "validateSafeAccountConfig imp (safeAccountConfig props) = None"
      "priv_ethAdapter this = Some adapter"
      "priv_safeProxyFactoryContract this = Some factoryContract"
      "priv_gnosisSafeContract this = Some safeContract"
      "getSignerAddress adapter tr = Inr signerAddress"
      "encodeSetupCallData imp this (safeAccountConfig props) (tr @ [GetSignerAddress])
         = (Inr initializer, tr @ [GetSignerAddress, Encode ''setup'' args])"
      "\<not> (truthy (Option.bind (options props) gas)
          \<and> truthy (Option.bind (options props) gasLimit))"
      "cp = \<lparr> cp_safeMasterCopyAddress = safe_getAddress safeContract,
               cp_initializer = initializer,
               cp_saltNonce =
                 (case Option.bind (safeDeploymentConfig props) saltNonce of
                    Some n \<Rightarrow> n
                  | None \<Rightarrow>
                      round_to_double
                        (round_to_double (Date_now rt * 1000)
                         + Math_floor (fraction_times (Math_random rt) 1000))),
               cp_options =
                 (case options props of
                    None \<Rightarrow> \<lparr> from_address = Some (Some signerAddress), gas = None,
                               gasLimit = None, gasPrice = None \<rparr>
                  | Some given \<Rightarrow>
                      given \<lparr> from_address :=
                                (case from_address given of
                                   None \<Rightarrow> Some (Some signerAddress)
                                 | Some sender \<Rightarrow> Some sender) \<rparr>) \<rparr>"
      "(res, tr') =
         (case factory_createProxy factoryContract
                 (tr @ [GetSignerAddress, Encode ''setup'' args]) cp of
            Inl e \<Rightarrow> (Inl e, tr @ [GetSignerAddress, Encode ''setup'' args, CreateProxy cp])
          | Inr safeAddress \<Rightarrow>
              (case isContractDeployed adapter
                      (tr @ [GetSignerAddress, Encode ''setup'' args, CreateProxy cp])
                      safeAddress of
                 Inl e \<Rightarrow>
                   (Inl e, tr @ [GetSignerAddress, Encode ''setup'' args, CreateProxy cp,
                                 IsContractDeployed safeAddress])
               | Inr isDeployed \<Rightarrow>
                   if \<not> isDeployed
                   then (Inl (Error ''Safe Proxy contract is not deployed in the current network''),
                         tr @ [GetSignerAddress, Encode ''setup'' args, CreateProxy cp,
                               IsContractDeployed safeAddress])
                   else (Safe_create imp
                           (tr @ [GetSignerAddress, Encode ''setup'' args, CreateProxy cp,
                                  IsContractDeployed safeAddress])
                           \<lparr> new_safeAddress = safeAddress,
                             new_isL1SafeMasterCopy = priv_isL1SafeMasterCopy this,
                             new_contractNetworks = priv_contractNetworks this \<rparr>,
                         tr @ [GetSignerAddress, Encode ''setup'' args, CreateProxy cp,
                               IsContractDeployed safeAddress,
                               SafeCreate
                                 \<lparr> new_safeAddress = safeAddress,
                                   new_isL1SafeMasterCopy = priv_isL1SafeMasterCopy this,
                                   new_contractNetworks = priv_contractNetworks this \<rparr>])))"
proof (cases "validateSafeAccountConfig imp (safeAccountConfig props)")
  case (Some e)
  then have "deploySafe imp rt this props tr = (Inl e, tr)"
    by (simp add: deploySafe_def throw_def)
  with run have "res = Inl e" "tr' = tr"
    by simp_all
  with Some show ?thesis
    by (rule invalid)
next
  case valid: None
  show ?thesis
  proof (cases "priv_ethAdapter this")
    case None
    with valid have "deploySafe imp rt this props tr = (Inl TypeError, tr)"
      by (simp add: deploySafe_def throw_def)
    with run have "res = Inl TypeError" "tr' = tr"
      by simp_all
    with None show ?thesis
      by (rule no_adapter)
  next
    case adapter: (Some adapter)
    show ?thesis
    proof (cases "getSignerAddress adapter tr")
      case (Inl e)
      with valid adapter have
        "deploySafe imp rt this props tr = (Inl e, tr @ [GetSignerAddress])"
        by (simp add: deploySafe_def bind_def call_def)
      with run have "res = Inl e" "tr' = tr @ [GetSignerAddress]"
        by simp_all
      with adapter Inl show ?thesis
        by (rule no_signer)
    next
      case signer: (Inr signerAddress)
      obtain r tr1 where enc:
        "encodeSetupCallData imp this (safeAccountConfig props) (tr @ [GetSignerAddress])
           = (r, tr1)"
        by (cases "encodeSetupCallData imp this (safeAccountConfig props)
                     (tr @ [GetSignerAddress])")
      from enc show ?thesis
      proof (cases rule: encodeSetupCallData_cases)
        case uninitialised
        with enc have enc':
          "encodeSetupCallData imp this (safeAccountConfig props) (tr @ [GetSignerAddress])
             = (Inl TypeError, tr @ [GetSignerAddress])"
          by simp
        with valid adapter signer have
          "deploySafe imp rt this props tr = (Inl TypeError, tr @ [GetSignerAddress])"
          by (simp add: deploySafe_def bind_def call_def)
        with run have "res = Inl TypeError" "tr' = tr @ [GetSignerAddress]"
          by simp_all
        with enc' show ?thesis
          by (rule no_singleton)
      next
        case (encoded safeContract args)
        note singleton = encoded(1)
        from enc encoded(3) have enc':
          "encodeSetupCallData imp this (safeAccountConfig props) (tr @ [GetSignerAddress])
             = (r, tr @ [GetSignerAddress, Encode ''setup'' args])"
          by simp
        show ?thesis
        proof (cases r)
          case (Inl e)
          with enc' have enc'':
            "encodeSetupCallData imp this (safeAccountConfig props) (tr @ [GetSignerAddress])
               = (Inl e, tr @ [GetSignerAddress, Encode ''setup'' args])"
            by simp
          with valid adapter signer have
            "deploySafe imp rt this props tr
               = (Inl e, tr @ [GetSignerAddress, Encode ''setup'' args])"
            by (simp add: deploySafe_def bind_def call_def)
          with run have "res = Inl e" "tr' = tr @ [GetSignerAddress, Encode ''setup'' args]"
            by simp_all
          with enc'' show ?thesis
            by (rule not_encoded)
        next
          case (Inr initializer)
          with enc' have enc'':
            "encodeSetupCallData imp this (safeAccountConfig props) (tr @ [GetSignerAddress])
               = (Inr initializer, tr @ [GetSignerAddress, Encode ''setup'' args])"
            by simp
          show ?thesis
          proof (cases "truthy (Option.bind (options props) gas)
                        \<and> truthy (Option.bind (options props) gasLimit)")
            case True
            with valid adapter signer enc'' have
              "deploySafe imp rt this props tr
                 = (Inl (Error ''Cannot specify gas and gasLimit together in transaction options''),
                    tr @ [GetSignerAddress, Encode ''setup'' args])"
              by (simp add: deploySafe_def bind_def call_def throw_def Let_def)
            with run have
              "res = Inl (Error ''Cannot specify gas and gasLimit together in transaction options'')"
              "tr' = tr @ [GetSignerAddress, Encode ''setup'' args]"
              by simp_all
            with True show ?thesis
              by (intro gas_conflict) simp_all
          next
            case no_conflict: False
            show ?thesis
            proof (cases "priv_safeProxyFactoryContract this")
              case None
              with valid adapter signer enc'' no_conflict have
                "deploySafe imp rt this props tr
                   = (Inl TypeError, tr @ [GetSignerAddress, Encode ''setup'' args])"
                by (simp add: deploySafe_def bind_def call_def throw_def Let_def)
              with run have "res = Inl TypeError"
                "tr' = tr @ [GetSignerAddress, Encode ''setup'' args]"
                by simp_all
              with no_conflict None show ?thesis
                by (rule no_factory)
            next
              case factory: (Some factoryContract)
              show ?thesis
                apply (rule submitted [OF valid adapter factory singleton signer enc''
                      no_conflict refl])
                unfolding run [symmetric]
                using valid adapter signer enc'' singleton no_conflict factory
                apply (simp add: deploySafe_def bind_def call_def throw_def Let_def
                    split: sum.split)
                done
            qed
          qed
        qed
      qed
    qed
  qed
qed

lemma getProxyFactoryContract_cases:
  fixes imp :: "('d, 'safe) module_imports"
  defines "lookup version chainId custom \<equiv>
     \<lparr> arg_safeVersion = version, arg_chainId = chainId,
       arg_singletonDeployment = getSafeProxyFactoryContractDeployment imp version chainId,
       arg_customContractAddress = map_option safeProxyFactoryAddress custom,
       arg_customContractAbi = Option.bind custom safeProxyFactoryAbi \<rparr>"
  assumes run: "getProxyFactoryContract imp this adapter version chainId custom tr = (res, tr')"
    and own: "priv_ethAdapter this = Some own"
  obtains
    (no_handle) e where
      "getSafeProxyFactoryContract adapter tr (lookup version chainId custom) = Inl e"
      "res = Inl e"
      "tr' = tr @ [GetSafeProxyFactoryContract (lookup version chainId custom)]"
  | (unknown) factoryContract e where
      "getSafeProxyFactoryContract adapter tr (lookup version chainId custom)
         = Inr factoryContract"
      "isContractDeployed own
         (tr @ [GetSafeProxyFactoryContract (lookup version chainId custom)])
         (factory_getAddress factoryContract) = Inl e"
      "res = Inl e"
      "tr' = tr @ [GetSafeProxyFactoryContract (lookup version chainId custom),
                   IsContractDeployed (factory_getAddress factoryContract)]"
  | (absent) factoryContract where
      "getSafeProxyFactoryContract adapter tr (lookup version chainId custom)
         = Inr factoryContract"
      "isContractDeployed own
         (tr @ [GetSafeProxyFactoryContract (lookup version chainId custom)])
         (factory_getAddress factoryContract) = Inr False"
      "res = Inl (Error ''Safe Proxy Factory contract is not deployed in the current network'')"
      "tr' = tr @ [GetSafeProxyFactoryContract (lookup version chainId custom),
                   IsContractDeployed (factory_getAddress factoryContract)]"
  | (resolved) factoryContract where
      "getSafeProxyFactoryContract adapter tr (lookup version chainId custom)
         = Inr factoryContract"
      "isContractDeployed own
         (tr @ [GetSafeProxyFactoryContract (lookup version chainId custom)])
         (factory_getAddress factoryContract) = Inr True"
      "res = Inr factoryContract"
      "tr' = tr @ [GetSafeProxyFactoryContract (lookup version chainId custom),
                   IsContractDeployed (factory_getAddress factoryContract)]"
proof -
  let ?props = "lookup version chainId custom"
  let ?defs = "getProxyFactoryContract_def bind_def call_def throw_def return_def Let_def"
  show ?thesis
  proof (cases "getSafeProxyFactoryContract adapter tr ?props")
    case (Inl e)
    with own have "getProxyFactoryContract imp this adapter version chainId custom tr
                      = (Inl e, tr @ [GetSafeProxyFactoryContract ?props])"
      by (simp add: getProxyFactoryContract_def bind_def call_def Let_def lookup_def)
    with run have "res = Inl e" "tr' = tr @ [GetSafeProxyFactoryContract ?props]"
      by simp_all
    with Inl show ?thesis
      by (rule no_handle)
  next
    case handle: (Inr factoryContract)
    let ?tr = "tr @ [GetSafeProxyFactoryContract ?props,
                     IsContractDeployed (factory_getAddress factoryContract)]"
    show ?thesis
    proof (cases "isContractDeployed own (tr @ [GetSafeProxyFactoryContract ?props])
                    (factory_getAddress factoryContract)")
      case (Inl e)
      with own handle have
        "getProxyFactoryContract imp this adapter version chainId custom tr = (Inl e, ?tr)"
        by (simp add: getProxyFactoryContract_def bind_def call_def Let_def lookup_def)
      with run have "res = Inl e" "tr' = ?tr"
        by simp_all
      with handle Inl show ?thesis
        by (rule unknown)
    next
      case (Inr isDeployed)
      show ?thesis
      proof (cases isDeployed)
        case True
        with own handle Inr have
          "getProxyFactoryContract imp this adapter version chainId custom tr
             = (Inr factoryContract, ?tr)"
          by (simp add: getProxyFactoryContract_def bind_def call_def return_def Let_def
              lookup_def)
        with run have "res = Inr factoryContract" "tr' = ?tr"
          by simp_all
        with handle Inr True show ?thesis
          by (intro resolved) simp_all
      next
        case False
        with own handle Inr have
          "getProxyFactoryContract imp this adapter version chainId custom tr
             = (Inl (Error ''Safe Proxy Factory contract is not deployed in the current network''),
                ?tr)"
          by (simp add: getProxyFactoryContract_def bind_def call_def throw_def Let_def
              lookup_def)
        with run have
          "res = Inl (Error ''Safe Proxy Factory contract is not deployed in the current network'')"
          "tr' = ?tr"
          by simp_all
        with handle Inr False show ?thesis
          by (intro absent) simp_all
      qed
    qed
  qed
qed

lemma getSafeContract_cases:
  fixes imp :: "('d, 'safe) module_imports"
  defines "lookup version chainId isL1 custom \<equiv>
     \<lparr> arg_safeVersion = version, arg_chainId = chainId,
       arg_singletonDeployment =
         getSafeContractDeployment imp (SAFE_LAST_VERSION imp) chainId isL1,
       arg_customContractAddress = map_option safeMasterCopyAddress custom,
       arg_customContractAbi = Option.bind custom safeMasterCopyAbi \<rparr>"
  assumes run: "getSafeContract' imp this adapter version chainId isL1 custom tr = (res, tr')"
    and own: "priv_ethAdapter this = Some own"
  obtains
    (no_handle) e where
      "getSafeContract adapter tr (lookup version chainId isL1 custom) = Inl e"
      "res = Inl e"
      "tr' = tr @ [GetSafeContract (lookup version chainId isL1 custom)]"
  | (unknown) safeContract e where
      "getSafeContract adapter tr (lookup version chainId isL1 custom)
         = Inr safeContract"
      "isContractDeployed own
         (tr @ [GetSafeContract (lookup version chainId isL1 custom)])
         (safe_getAddress safeContract) = Inl e"
      "res = Inl e"
      "tr' = tr @ [GetSafeContract (lookup version chainId isL1 custom),
                   IsContractDeployed (safe_getAddress safeContract)]"
  | (absent) safeContract where
      "getSafeContract adapter tr (lookup version chainId isL1 custom)
         = Inr safeContract"
      "isContractDeployed own
         (tr @ [GetSafeContract (lookup version chainId isL1 custom)])
         (safe_getAddress safeContract) = Inr False"
      "res = Inl (Error ''Safe Proxy contract is not deployed in the current network'')"
      "tr' = tr @ [GetSafeContract (lookup version chainId isL1 custom),
                   IsContractDeployed (safe_getAddress safeContract)]"
  | (resolved) safeContract where
      "getSafeContract adapter tr (lookup version chainId isL1 custom)
         = Inr safeContract"
      "isContractDeployed own
         (tr @ [GetSafeContract (lookup version chainId isL1 custom)])
         (safe_getAddress safeContract) = Inr True"
      "res = Inr safeContract"
      "tr' = tr @ [GetSafeContract (lookup version chainId isL1 custom),
                   IsContractDeployed (safe_getAddress safeContract)]"
proof -
  let ?props = "lookup version chainId isL1 custom"
  let ?defs = "getSafeContract'_def bind_def call_def throw_def return_def Let_def"
  show ?thesis
  proof (cases "getSafeContract adapter tr ?props")
    case (Inl e)
    with own have "getSafeContract' imp this adapter version chainId isL1 custom tr
                      = (Inl e, tr @ [GetSafeContract ?props])"
      by (simp add: getSafeContract'_def bind_def call_def Let_def lookup_def)
    with run have "res = Inl e" "tr' = tr @ [GetSafeContract ?props]"
      by simp_all
    with Inl show ?thesis
      by (rule no_handle)
  next
    case handle: (Inr safeContract)
    let ?tr = "tr @ [GetSafeContract ?props,
                     IsContractDeployed (safe_getAddress safeContract)]"
    show ?thesis
    proof (cases "isContractDeployed own (tr @ [GetSafeContract ?props])
                    (safe_getAddress safeContract)")
      case (Inl e)
      with own handle have
        "getSafeContract' imp this adapter version chainId isL1 custom tr = (Inl e, ?tr)"
        by (simp add: getSafeContract'_def bind_def call_def Let_def lookup_def)
      with run have "res = Inl e" "tr' = ?tr"
        by simp_all
      with handle Inl show ?thesis
        by (rule unknown)
    next
      case (Inr isDeployed)
      show ?thesis
      proof (cases isDeployed)
        case True
        with own handle Inr have
          "getSafeContract' imp this adapter version chainId isL1 custom tr
             = (Inr safeContract, ?tr)"
          by (simp add: getSafeContract'_def bind_def call_def return_def Let_def
              lookup_def)
        with run have "res = Inr safeContract" "tr' = ?tr"
          by simp_all
        with handle Inr True show ?thesis
          by (intro resolved) simp_all
      next
        case False
        with own handle Inr have
          "getSafeContract' imp this adapter version chainId isL1 custom tr
             = (Inl (Error ''Safe Proxy contract is not deployed in the current network''),
                ?tr)"
          by (simp add: getSafeContract'_def bind_def call_def throw_def Let_def
              lookup_def)
        with run have
          "res = Inl (Error ''Safe Proxy contract is not deployed in the current network'')"
          "tr' = ?tr"
          by simp_all
        with handle Inr False show ?thesis
          by (intro absent) simp_all
      qed
    qed
  qed
qed

lemma create_cases:
  fixes imp :: "('d, 'safe) module_imports"
  assumes run: "create imp config tr = (res, tr')"
  obtains
    (no_chain) e where
      "getChainId (ethAdapter config) tr = Inl e" "res = Inl e" "tr' = tr @ [GetChainId]"
  | (factory_no_handle) p1 e where
      "res = Inl e" "tr' = tr @ [GetChainId, GetSafeProxyFactoryContract p1]"
  | (factory_unknown) p1 and factoryContract :: "'d GnosisSafeProxyFactoryContract" and e where
      "isContractDeployed (ethAdapter config)
         (tr @ [GetChainId, GetSafeProxyFactoryContract p1])
         (factory_getAddress factoryContract) = Inl e"
      "res = Inl e"
      "tr' = tr @ [GetChainId, GetSafeProxyFactoryContract p1,
                   IsContractDeployed (factory_getAddress factoryContract)]"
  | (factory_absent) p1 and factoryContract :: "'d GnosisSafeProxyFactoryContract" where
      "isContractDeployed (ethAdapter config)
         (tr @ [GetChainId, GetSafeProxyFactoryContract p1])
         (factory_getAddress factoryContract) = Inr False"
      "res = Inl (Error ''Safe Proxy Factory contract is not deployed in the current network'')"
      "tr' = tr @ [GetChainId, GetSafeProxyFactoryContract p1,
                   IsContractDeployed (factory_getAddress factoryContract)]"
  | (singleton_no_handle) p1 and factoryContract :: "'d GnosisSafeProxyFactoryContract"
      and p2 e where
      "isContractDeployed (ethAdapter config)
         (tr @ [GetChainId, GetSafeProxyFactoryContract p1])
         (factory_getAddress factoryContract) = Inr True"
      "res = Inl e"
      "tr' = tr @ [GetChainId, GetSafeProxyFactoryContract p1,
                   IsContractDeployed (factory_getAddress factoryContract),
                   GetSafeContract p2]"
  | (singleton_unknown) p1 and factoryContract :: "'d GnosisSafeProxyFactoryContract"
      and p2 and safeContract :: GnosisSafeContract and e where
      "isContractDeployed (ethAdapter config)
         (tr @ [GetChainId, GetSafeProxyFactoryContract p1])
         (factory_getAddress factoryContract) = Inr True"
      "isContractDeployed (ethAdapter config)
         (tr @ [GetChainId, GetSafeProxyFactoryContract p1,
                IsContractDeployed (factory_getAddress factoryContract), GetSafeContract p2])
         (safe_getAddress safeContract) = Inl e"
      "res = Inl e"
      "tr' = tr @ [GetChainId, GetSafeProxyFactoryContract p1,
                   IsContractDeployed (factory_getAddress factoryContract),
                   GetSafeContract p2, IsContractDeployed (safe_getAddress safeContract)]"
  | (singleton_absent) p1 and factoryContract :: "'d GnosisSafeProxyFactoryContract"
      and p2 and safeContract :: GnosisSafeContract where
      "isContractDeployed (ethAdapter config)
         (tr @ [GetChainId, GetSafeProxyFactoryContract p1])
         (factory_getAddress factoryContract) = Inr True"
      "isContractDeployed (ethAdapter config)
         (tr @ [GetChainId, GetSafeProxyFactoryContract p1,
                IsContractDeployed (factory_getAddress factoryContract), GetSafeContract p2])
         (safe_getAddress safeContract) = Inr False"
      "res = Inl (Error ''Safe Proxy contract is not deployed in the current network'')"
      "tr' = tr @ [GetChainId, GetSafeProxyFactoryContract p1,
                   IsContractDeployed (factory_getAddress factoryContract),
                   GetSafeContract p2, IsContractDeployed (safe_getAddress safeContract)]"
  | (created) p1 factoryContract p2 safeContract where
      "isContractDeployed (ethAdapter config)
         (tr @ [GetChainId, GetSafeProxyFactoryContract p1])
         (factory_getAddress factoryContract) = Inr True"
      "isContractDeployed (ethAdapter config)
         (tr @ [GetChainId, GetSafeProxyFactoryContract p1,
                IsContractDeployed (factory_getAddress factoryContract), GetSafeContract p2])
         (safe_getAddress safeContract) = Inr True"
      "res = Inr \<lparr> priv_contractNetworks = contractNetworks config,
                    priv_isL1SafeMasterCopy =
                      Some (case isL1SafeMasterCopy config of None \<Rightarrow> False | Some b \<Rightarrow> b),
                    priv_safeVersion =
                      Some (case safeVersion config of
                              None \<Rightarrow> SAFE_LAST_VERSION imp | Some v \<Rightarrow> v),
                    priv_ethAdapter = Some (ethAdapter config),
                    priv_safeProxyFactoryContract = Some factoryContract,
                    priv_gnosisSafeContract = Some safeContract \<rparr>"
      "tr' = tr @ [GetChainId, GetSafeProxyFactoryContract p1,
                   IsContractDeployed (factory_getAddress factoryContract),
                   GetSafeContract p2, IsContractDeployed (safe_getAddress safeContract)]"
proof -
  let ?adapter = "ethAdapter config"
  let ?version = "case safeVersion config of None \<Rightarrow> SAFE_LAST_VERSION imp | Some v \<Rightarrow> v"
  let ?isL1 = "Some (case isL1SafeMasterCopy config of None \<Rightarrow> False | Some b \<Rightarrow> b)"
  let ?this1 = "(new_SafeFactory :: 'd SafeFactory)
                  \<lparr> priv_ethAdapter := Some ?adapter, priv_safeVersion := Some ?version,
                    priv_isL1SafeMasterCopy := ?isL1,
                    priv_contractNetworks := contractNetworks config \<rparr>"
  have own1: "priv_ethAdapter ?this1 = Some ?adapter"
    by simp
  show ?thesis
  proof (cases "getChainId ?adapter tr")
    case (Inl e)
    then have "create imp config tr = (Inl e, tr @ [GetChainId])"
      by (simp add: create_def init_def call_def Let_def)
    with run have "res = Inl e" "tr' = tr @ [GetChainId]"
      by simp_all
    with Inl show ?thesis
      by (rule no_chain)
  next
    case chain: (Inr chainId)
    let ?custom = "Option.bind (contractNetworks config) (\<lambda>networks. networks chainId)"
    obtain r2 tr2 where factory:
      "getProxyFactoryContract imp ?this1 ?adapter ?version chainId ?custom (tr @ [GetChainId])
         = (r2, tr2)"
      by (cases "getProxyFactoryContract imp ?this1 ?adapter ?version chainId ?custom
                   (tr @ [GetChainId])")
    have failed: "res = Inl e \<and> tr' = tr2" if "r2 = Inl e" for e
    proof -
      from that chain factory have "create imp config tr = (Inl e, tr2)"
        by (simp add: create_def init_def call_def Let_def)
      with run show ?thesis
        by simp
    qed
    define p1 where "p1 =
      \<lparr> arg_safeVersion = ?version, arg_chainId = chainId,
        arg_singletonDeployment = getSafeProxyFactoryContractDeployment imp ?version chainId,
        arg_customContractAddress = map_option safeProxyFactoryAddress ?custom,
        arg_customContractAbi = Option.bind ?custom safeProxyFactoryAbi \<rparr>"
    let ?tr1 = "tr @ [GetChainId, GetSafeProxyFactoryContract p1]"
    from factory own1 show ?thesis
    proof (cases rule: getProxyFactoryContract_cases)
      case (no_handle e)
      with failed [of e] have "res = Inl e" "tr' = ?tr1"
        by (simp_all add: p1_def)
      then show ?thesis
        by (rule factory_no_handle)
    next
      case (unknown factoryContract e)
      with failed [of e] have
        "isContractDeployed ?adapter ?tr1 (factory_getAddress factoryContract) = Inl e"
        "res = Inl e"
        "tr' = tr @ [GetChainId, GetSafeProxyFactoryContract p1,
                     IsContractDeployed (factory_getAddress factoryContract)]"
        by (simp_all add: p1_def)
      then show ?thesis
        by (rule factory_unknown)
    next
      case (absent factoryContract)
      with failed [of "Error ''Safe Proxy Factory contract is not deployed in the current network''"]
      have
        "isContractDeployed ?adapter ?tr1 (factory_getAddress factoryContract) = Inr False"
        "res = Inl (Error ''Safe Proxy Factory contract is not deployed in the current network'')"
        "tr' = tr @ [GetChainId, GetSafeProxyFactoryContract p1,
                     IsContractDeployed (factory_getAddress factoryContract)]"
        by (simp_all add: p1_def)
      then show ?thesis
        by (rule factory_absent)
    next
      case (resolved factoryContract)
      then have r2: "r2 = Inr factoryContract"
        and tr2: "tr2 = ?tr1 @ [IsContractDeployed (factory_getAddress factoryContract)]"
        and code1:
          "isContractDeployed ?adapter ?tr1 (factory_getAddress factoryContract) = Inr True"
        by (simp_all add: p1_def)
      let ?this2 = "?this1 \<lparr> priv_safeProxyFactoryContract := Some factoryContract \<rparr>"
      have own2: "priv_ethAdapter ?this2 = Some ?adapter"
        by simp
      obtain r3 tr3 where singleton:
        "getSafeContract' imp ?this2 ?adapter ?version chainId ?isL1 ?custom tr2 = (r3, tr3)"
        by (cases "getSafeContract' imp ?this2 ?adapter ?version chainId ?isL1 ?custom tr2")
      have failed2: "res = Inl e \<and> tr' = tr3" if "r3 = Inl e" for e
      proof -
        from that chain factory r2 singleton have
          "create imp config tr = (Inl e, tr3)"
          by (simp add: create_def init_def call_def Let_def)
        with run show ?thesis
          by simp
      qed
      define p2 where "p2 =
        \<lparr> arg_safeVersion = ?version, arg_chainId = chainId,
          arg_singletonDeployment =
            getSafeContractDeployment imp (SAFE_LAST_VERSION imp) chainId ?isL1,
          arg_customContractAddress = map_option safeMasterCopyAddress ?custom,
          arg_customContractAbi = Option.bind ?custom safeMasterCopyAbi \<rparr>"
      let ?tr2 = "tr @ [GetChainId, GetSafeProxyFactoryContract p1,
                        IsContractDeployed (factory_getAddress factoryContract),
                        GetSafeContract p2]"
      from singleton own2 show ?thesis
      proof (cases rule: getSafeContract_cases)
        case (no_handle e)
        with failed2 [of e] tr2 have "res = Inl e" "tr' = ?tr2"
          by (simp_all add: p2_def)
        with code1 show ?thesis
          by (rule singleton_no_handle)
      next
        case (unknown safeContract e)
        with failed2 [of e] tr2 have
          "isContractDeployed ?adapter ?tr2 (safe_getAddress safeContract) = Inl e"
          "res = Inl e"
          "tr' = tr @ [GetChainId, GetSafeProxyFactoryContract p1,
                       IsContractDeployed (factory_getAddress factoryContract),
                       GetSafeContract p2, IsContractDeployed (safe_getAddress safeContract)]"
          by (simp_all add: p2_def)
        with code1 show ?thesis
          by (rule singleton_unknown)
      next
        case (absent safeContract)
        with failed2 [of "Error ''Safe Proxy contract is not deployed in the current network''"]
          tr2
        have
          "isContractDeployed ?adapter ?tr2 (safe_getAddress safeContract) = Inr False"
          "res = Inl (Error ''Safe Proxy contract is not deployed in the current network'')"
          "tr' = tr @ [GetChainId, GetSafeProxyFactoryContract p1,
                       IsContractDeployed (factory_getAddress factoryContract),
                       GetSafeContract p2, IsContractDeployed (safe_getAddress safeContract)]"
          by (simp_all add: p2_def)
        with code1 show ?thesis
          by (rule singleton_absent)
      next
        case deployed: (resolved safeContract)
        from chain factory r2 singleton deployed(3) have
          "create imp config tr
             = (Inr (?this2 \<lparr> priv_gnosisSafeContract := Some safeContract \<rparr>), tr3)"
          by (simp add: create_def init_def call_def Let_def)
        with run have "res = Inr (?this2 \<lparr> priv_gnosisSafeContract := Some safeContract \<rparr>)"
          "tr' = tr3"
          by simp_all
        with deployed(2,4) tr2 code1 have
          "isContractDeployed ?adapter ?tr1 (factory_getAddress factoryContract) = Inr True"
          "isContractDeployed ?adapter ?tr2 (safe_getAddress safeContract) = Inr True"
          "res = Inr \<lparr> priv_contractNetworks = contractNetworks config,
                    priv_isL1SafeMasterCopy = ?isL1,
                    priv_safeVersion = Some ?version,
                    priv_ethAdapter = Some ?adapter,
                    priv_safeProxyFactoryContract = Some factoryContract,
                    priv_gnosisSafeContract = Some safeContract \<rparr>"
          "tr' = tr @ [GetChainId, GetSafeProxyFactoryContract p1,
                       IsContractDeployed (factory_getAddress factoryContract),
                       GetSafeContract p2, IsContractDeployed (safe_getAddress safeContract)]"
          by (simp_all add: p2_def new_SafeFactory_def)
        then show ?thesis
          by (rule created)
      qed
    qed
  qed
qed

subsection \<open>The deployment record of the singleton\<close>

text \<open>
  Whatever the requested version, the first call of \<open>getSafeContract\<close> hands the adapter
  the record that the table holds for \<open>SAFE_LAST_VERSION\<close>.
\<close>

lemma getSafeContract_lookup_version:
  assumes "getSafeContract' imp this adapter version chainId isL1 custom tr = (res, tr')"
    and "priv_ethAdapter this = Some own"
  shows "\<exists>rest. tr' = tr @
           GetSafeContract
             \<lparr> arg_safeVersion = version, arg_chainId = chainId,
               arg_singletonDeployment =
                 getSafeContractDeployment imp (SAFE_LAST_VERSION imp) chainId isL1,
               arg_customContractAddress = map_option safeMasterCopyAddress custom,
               arg_customContractAbi = Option.bind custom safeMasterCopyAbi \<rparr> # rest"
  using assms by (cases rule: getSafeContract_cases) simp_all

text \<open>
  C1. The claim: the built-in record looked up for the singleton is the one of the version
  requested at construction. The code looks the record up under \<open>SAFE_LAST_VERSION\<close>:
  a factory created for version 1.1.1 on chain 1, where the last version is 1.3.0, hands
  the adapter the record of version 1.3.0 for the singleton, although it hands it the
  record of version 1.1.1 for the proxy factory.
\<close>

theorem create_singleton_lookup_uses_last_version:
  "snd (create example_imports
          (example_config [''0xFactory'', ''0xSingleton''] (Some ''1.1.1'')) [])
   = [GetChainId,
      GetSafeProxyFactoryContract
        \<lparr> arg_safeVersion = ''1.1.1'', arg_chainId = 1,
          arg_singletonDeployment = Some (''1.1.1'', 1),
          arg_customContractAddress = None, arg_customContractAbi = None \<rparr>,
      IsContractDeployed ''0xFactory'',
      GetSafeContract
        \<lparr> arg_safeVersion = ''1.1.1'', arg_chainId = 1,
          arg_singletonDeployment = Some (''1.3.0'', 1),
          arg_customContractAddress = None, arg_customContractAbi = None \<rparr>,
      IsContractDeployed ''0xSingleton'']"
  by (simp add: create_defs run_defs example_defs Let_def)

subsection \<open>Conflicting gas options\<close>

text \<open>
  C2, as the code has it. When the options carry a truthy \<open>gas\<close> and a truthy
  \<open>gasLimit\<close>, no proxy creation is submitted; and when the configuration is valid,
  the instance has its adapter, the signer address is obtained and the setup payload is
  encoded, the call fails with the error of conflicting gas options.
\<close>

theorem deploySafe_conflicting_gas:
  assumes "options props = Some given"
    and "truthy (gas given)" and "truthy (gasLimit given)"
  shows "(\<exists>evs. snd (deploySafe imp rt this props tr) = tr @ evs
                \<and> (\<forall>cp. CreateProxy cp \<notin> set evs))
         \<and> (validateSafeAccountConfig imp (safeAccountConfig props) = None
              \<and> priv_ethAdapter this = Some adapter
              \<and> getSignerAddress adapter tr = Inr signerAddress
              \<and> fst (encodeSetupCallData imp this (safeAccountConfig props)
                       (tr @ [GetSignerAddress])) = Inr initializer
              \<longrightarrow> fst (deploySafe imp rt this props tr)
                    = Inl (Error ''Cannot specify gas and gasLimit together in transaction options''))"
proof -
  obtain res tr' where run: "deploySafe imp rt this props tr = (res, tr')"
    by (cases "deploySafe imp rt this props tr")
  from assms have both:
    "truthy (Option.bind (options props) gas)" "truthy (Option.bind (options props) gasLimit)"
    by simp_all
  from run show ?thesis
  proof (cases rule: deploySafe_cases)
    case (no_signer adapter' e)
    with run show ?thesis by auto
  qed (use run both in auto)
qed

theorem deploySafe_conflicting_gas_witness:
  "deploySafe example_imports example_runtime
     (example_factory [''0xFactory'', ''0xSingleton'', ''0xProxy''])
     (example_props [''0xA'', ''0xB''] 2 (Some (Some 42)) (Some (example_gas 21000 100000))) []
   = (Inl (Error ''Cannot specify gas and gasLimit together in transaction options''),
      [GetSignerAddress, example_setup])"
proof -
  let ?factory = "example_factory [''0xFactory'', ''0xSingleton'', ''0xProxy'']"
  let ?props = "example_props [''0xA'', ''0xB''] 2 (Some (Some 42))
                  (Some (example_gas 21000 100000))"
  have given: "options ?props = Some (example_gas 21000 100000)"
    "truthy (gas (example_gas 21000 100000))" "truthy (gasLimit (example_gas 21000 100000))"
    by (simp_all add: example_defs)
  have before:
    "validateSafeAccountConfig example_imports (safeAccountConfig ?props) = None
     \<and> priv_ethAdapter ?factory
         = Some (example_adapter [''0xFactory'', ''0xSingleton'', ''0xProxy''])
     \<and> getSignerAddress (example_adapter [''0xFactory'', ''0xSingleton'', ''0xProxy'']) []
         = Inr ''0xSigner''
     \<and> fst (encodeSetupCallData example_imports ?factory (safeAccountConfig ?props)
              ([] @ [GetSignerAddress])) = Inr ''0xSetup''"
    by (simp add: deploy_defs run_defs example_defs Let_def)
  have trace: "snd (deploySafe example_imports example_runtime ?factory ?props [])
                 = [GetSignerAddress, example_setup]"
    by (simp add: deploy_defs run_defs example_defs Let_def)
  from deploySafe_conflicting_gas [OF given, where imp = example_imports
      and this = ?factory and rt = example_runtime and tr = "[]"
      and adapter = "example_adapter [''0xFactory'', ''0xSingleton'', ''0xProxy'']"
      and signerAddress = "''0xSigner''" and initializer = "''0xSetup''"] before
  have "fst (deploySafe example_imports example_runtime ?factory ?props [])
          = Inl (Error ''Cannot specify gas and gasLimit together in transaction options'')"
    by blast
  with trace show ?thesis
    by (simp add: prod_eq_iff)
qed

text \<open>
  The claim as stated fails twice. With \<open>gas = 0\<close> beside a gas limit the options contain
  both fields, yet the proxy is created and the call succeeds; and with an invalid
  configuration beside two truthy gas fields the call fails with the invalid-configuration
  error instead.
\<close>

theorem deploySafe_conflicting_gas_counterexample:
  "deploySafe example_imports example_runtime
     (example_factory [''0xFactory'', ''0xSingleton'', ''0xProxy''])
     (example_props [''0xA'', ''0xB''] 2 (Some (Some 42)) (Some (example_gas 0 100000))) []
   = (Inr ''0xProxy'',
      [GetSignerAddress, example_setup,
       CreateProxy (example_proxy_props 42
                      ((example_gas 0 100000) \<lparr> from_address := Some (Some ''0xSigner'') \<rparr>)),
       IsContractDeployed ''0xProxy'', SafeCreate example_safe_config])
   \<and> deploySafe example_imports example_runtime
       (example_factory [''0xFactory'', ''0xSingleton'', ''0xProxy''])
       (example_props [] 1 None (Some (example_gas 21000 100000))) []
     = (Inl InvalidConfiguration, [])"
  by (simp add: deploy_defs run_defs example_defs Let_def)

subsection \<open>Validation comes first\<close>

text \<open>
  C3. For an account configuration with no owners, with a duplicate owner, with the zero
  address among the owners, or with a threshold outside \<open>[1, owners.length]\<close>,
  \<open>deploySafe\<close> fails with the invalid-configuration error and calls no collaborator:
  the trace is unchanged, so the signer query, the encoding of the setup payload and the
  proxy creation have not happened.
\<close>

theorem deploySafe_invalid_config:
  assumes "safeAccountConfig props = config"
    and "owners config = [] \<or> \<not> distinct (owners config)
         \<or> ZERO_ADDRESS imp \<in> set (owners config)
         \<or> threshold config < 1 \<or> int (length (owners config)) < threshold config"
  shows "deploySafe imp rt this props tr = (Inl InvalidConfiguration, tr)"
  using assms
  by (auto simp add: deploySafe_def validateSafeAccountConfig_def throw_def list_ex_iff)

theorem deploySafe_invalid_config_witness:
  "deploySafe example_imports example_runtime
     (example_factory [''0xFactory'', ''0xSingleton'', ''0xProxy''])
     (example_props [''0xA'', ''0xA''] 3 None None) [GetChainId]
   = (Inl InvalidConfiguration, [GetChainId])"
  by (rule deploySafe_invalid_config [where config = "example_account [''0xA'', ''0xA''] 3"])
    (simp_all add: example_defs)

subsection \<open>Verification of the deployed proxy\<close>

text \<open>
  C4. A handle is returned only when the run ends with the proxy creation, which answered
  an address, the code check at that address, which answered true, and \<open>Safe.create\<close> on
  that address. Whenever the proxy creation answers an address, the next call is the code
  check at that address. When the code check answers false, the call fails with the
  deployment-verification error and nothing follows the check: \<open>Safe.create\<close> is not
  called.
\<close>

theorem deploySafe_verification:
  assumes run: "deploySafe imp rt this props tr = (res, tr')"
  shows "(\<forall>safe. res = Inr safe \<longrightarrow>
            (\<exists>adapter factoryContract pre cp address.
                priv_ethAdapter this = Some adapter
              \<and> priv_safeProxyFactoryContract this = Some factoryContract
              \<and> tr' = tr @ pre @
                     [CreateProxy cp, IsContractDeployed address,
                      SafeCreate \<lparr> new_safeAddress = address,
                                   new_isL1SafeMasterCopy = priv_isL1SafeMasterCopy this,
                                   new_contractNetworks = priv_contractNetworks this \<rparr>]
              \<and> factory_createProxy factoryContract (tr @ pre) cp = Inr address
              \<and> isContractDeployed adapter (tr @ pre @ [CreateProxy cp]) address = Inr True))
       \<and> (\<forall>factoryContract pre cp address rest.
              priv_safeProxyFactoryContract this = Some factoryContract
            \<and> tr' = tr @ pre @ CreateProxy cp # rest
            \<and> factory_createProxy factoryContract (tr @ pre) cp = Inr address
            \<longrightarrow> (\<exists>rest'. rest = IsContractDeployed address # rest'))
       \<and> (\<forall>adapter pre cp address rest.
              priv_ethAdapter this = Some adapter
            \<and> tr' = tr @ pre @ CreateProxy cp # IsContractDeployed address # rest
            \<and> isContractDeployed adapter (tr @ pre @ [CreateProxy cp]) address = Inr False
            \<longrightarrow> res = Inl (Error ''Safe Proxy contract is not deployed in the current network'')
                \<and> rest = [])"
  using run
proof (cases rule: deploySafe_cases)
  case (submitted adapter factoryContract safeContract signerAddress args initializer cp)
  let ?pre = "[GetSignerAddress, Encode ''setup'' args]"
  show ?thesis
  proof (intro conjI allI impI)
    fix safe
    assume "res = Inr safe"
    with submitted(9) have
      "\<exists>address. tr' = tr @ ?pre @
                     [CreateProxy cp, IsContractDeployed address,
                      SafeCreate \<lparr> new_safeAddress = address,
                                   new_isL1SafeMasterCopy = priv_isL1SafeMasterCopy this,
                                   new_contractNetworks = priv_contractNetworks this \<rparr>]
              \<and> factory_createProxy factoryContract (tr @ ?pre) cp = Inr address
              \<and> isContractDeployed adapter (tr @ ?pre @ [CreateProxy cp]) address = Inr True"
      by (auto split: sum.splits if_splits)
    with submitted(2,3) show "\<exists>adapter factoryContract pre cp address.
                priv_ethAdapter this = Some adapter
              \<and> priv_safeProxyFactoryContract this = Some factoryContract
              \<and> tr' = tr @ pre @
                     [CreateProxy cp, IsContractDeployed address,
                      SafeCreate \<lparr> new_safeAddress = address,
                                   new_isL1SafeMasterCopy = priv_isL1SafeMasterCopy this,
                                   new_contractNetworks = priv_contractNetworks this \<rparr>]
              \<and> factory_createProxy factoryContract (tr @ pre) cp = Inr address
              \<and> isContractDeployed adapter (tr @ pre @ [CreateProxy cp]) address = Inr True"
      by blast
  next
    fix factoryContract' pre cp' address rest
    assume a: "priv_safeProxyFactoryContract this = Some factoryContract'
            \<and> tr' = tr @ pre @ CreateProxy cp' # rest
            \<and> factory_createProxy factoryContract' (tr @ pre) cp' = Inr address"
    with submitted(9) have "pre = ?pre \<and> cp' = cp"
      by (auto simp add: append_eq_Cons_conv Cons_eq_append_conv split: sum.splits if_splits)
    with a submitted(3,9) show "\<exists>rest'. rest = IsContractDeployed address # rest'"
      by (auto split: sum.splits if_splits)
  next
    fix adapter' pre cp' address rest
    assume a: "priv_ethAdapter this = Some adapter'
            \<and> tr' = tr @ pre @ CreateProxy cp' # IsContractDeployed address # rest
            \<and> isContractDeployed adapter' (tr @ pre @ [CreateProxy cp']) address = Inr False"
    with submitted(9) have "pre = ?pre \<and> cp' = cp"
      by (auto simp add: append_eq_Cons_conv Cons_eq_append_conv split: sum.splits if_splits)
    with a submitted(2,9) show
      "res = Inl (Error ''Safe Proxy contract is not deployed in the current network'')"
      by (auto split: sum.splits if_splits)
    from \<open>pre = ?pre \<and> cp' = cp\<close> a submitted(2,9) show "rest = []"
      by (auto split: sum.splits if_splits)
  qed
qed (auto simp add: append_eq_Cons_conv Cons_eq_append_conv)

theorem deploySafe_verification_witness:
  "deploySafe example_imports example_runtime
     (example_factory [''0xFactory'', ''0xSingleton''])
     (example_props [''0xA'', ''0xB''] 2 (Some (Some 42)) None) []
   = (Inl (Error ''Safe Proxy contract is not deployed in the current network''),
      [GetSignerAddress, example_setup, CreateProxy (example_proxy_props 42 example_sender),
       IsContractDeployed ''0xProxy''])
   \<and> deploySafe example_imports example_runtime
       (example_factory [''0xFactory'', ''0xSingleton'', ''0xProxy''])
       (example_props [''0xA'', ''0xB''] 2 (Some (Some 42)) None) []
     = (Inr ''0xProxy'',
        [GetSignerAddress, example_setup, CreateProxy (example_proxy_props 42 example_sender),
         IsContractDeployed ''0xProxy'', SafeCreate example_safe_config])"
proof -
  let ?props = "example_props [''0xA'', ''0xB''] 2 (Some (Some 42)) None"
  let ?cp = "example_proxy_props 42 example_sender"
  let ?absent = "example_factory [''0xFactory'', ''0xSingleton'']"
  let ?present = "example_factory [''0xFactory'', ''0xSingleton'', ''0xProxy'']"
  have trace: "snd (deploySafe example_imports example_runtime ?absent ?props [])
      = [] @ [GetSignerAddress, example_setup] @ CreateProxy ?cp
           # IsContractDeployed ''0xProxy'' # []"
    by (simp add: deploy_defs run_defs example_defs Let_def)
  have adapter: "priv_ethAdapter ?absent = Some (example_adapter [''0xFactory'', ''0xSingleton''])"
    by (simp add: example_defs)
  have no_code: "isContractDeployed (example_adapter [''0xFactory'', ''0xSingleton''])
                   ([] @ [GetSignerAddress, example_setup] @ [CreateProxy ?cp]) ''0xProxy''
                 = Inr False"
    by (simp add: example_defs)
  from deploySafe_verification [OF surjective_pairing] adapter trace no_code
  have "fst (deploySafe example_imports example_runtime ?absent ?props [])
          = Inl (Error ''Safe Proxy contract is not deployed in the current network'')"
    by blast
  with trace have failed: "deploySafe example_imports example_runtime ?absent ?props []
     = (Inl (Error ''Safe Proxy contract is not deployed in the current network''),
        [GetSignerAddress, example_setup, CreateProxy ?cp, IsContractDeployed ''0xProxy''])"
    by (simp add: prod_eq_iff)
  have run: "deploySafe example_imports example_runtime ?present ?props []
     = (Inr ''0xProxy'',
        [GetSignerAddress, example_setup, CreateProxy ?cp,
         IsContractDeployed ''0xProxy'', SafeCreate example_safe_config])"
    by (simp add: deploy_defs run_defs example_defs Let_def)
  from deploySafe_verification [OF run] failed run show ?thesis
    by simp
qed

subsection \<open>The setup payload\<close>

text \<open>
  C5. The setup payload is the call \<open>setup\<close> over exactly eight arguments: the owners, the
  threshold, the delegate-call target, the call data, the fallback handler, the payment
  token, the payment amount and the payment receiver, where an omitted optional field is
  the zero address (the address fields), the empty data (the call data) or zero (the
  payment amount).
\<close>

theorem encodeSetupCallData_setup_args:
  assumes "priv_gnosisSafeContract this = Some safeContract"
  shows "encodeSetupCallData imp this config tr =
     (let args = [AStrs (owners config), ANum (threshold config),
                  AStr (case to config of None \<Rightarrow> ZERO_ADDRESS imp | Some a \<Rightarrow> a),
                  AStr (case data config of None \<Rightarrow> EMPTY_DATA imp | Some d \<Rightarrow> d),
                  AStr (case fallbackHandler config of None \<Rightarrow> ZERO_ADDRESS imp | Some a \<Rightarrow> a),
                  AStr (case paymentToken config of None \<Rightarrow> ZERO_ADDRESS imp | Some a \<Rightarrow> a),
                  ANum (case payment config of None \<Rightarrow> 0 | Some n \<Rightarrow> n),
                  AStr (case paymentReceiver config of None \<Rightarrow> ZERO_ADDRESS imp | Some a \<Rightarrow> a)]
      in (safe_encode safeContract ''setup'' args, tr @ [Encode ''setup'' args]))"
  using assms by (simp add: encodeSetupCallData_def call_def Let_def)

theorem encodeSetupCallData_setup_args_witness:
  "encodeSetupCallData example_imports
     (example_factory [''0xFactory'', ''0xSingleton'', ''0xProxy''])
     ((example_account [''0xA'', ''0xB''] 2) \<lparr> fallbackHandler := Some ''0xH'' \<rparr>) []
   = (Inr ''0xSetup'',
      [Encode ''setup''
         [AStrs [''0xA'', ''0xB''], ANum 2, AStr ''0x0'', AStr ''0x'', AStr ''0xH'',
          AStr ''0x0'', ANum 0, AStr ''0x0'']])"
  using encodeSetupCallData_setup_args [of
      "example_factory [''0xFactory'', ''0xSingleton'', ''0xProxy'']" example_safe_contract
      example_imports "(example_account [''0xA'', ''0xB''] 2) \<lparr> fallbackHandler := Some ''0xH'' \<rparr>"
      "[]"]
  by (simp add: example_defs Let_def)

subsection \<open>The salt\<close>

text \<open>
  C6, as the code has it. The salt of a submitted proxy creation is the \<open>saltNonce\<close> of
  the deployment configuration when one is given, and otherwise the double
  \<open>Date.now() * 1000 + Math.floor(Math.random() * 1000)\<close>. While
  \<open>|Date.now() * 1000| + 1000\<close> is at most \<open>2 ^ 53\<close>, which holds for every clock before the
  year 2255, no rounding occurs in the product and the sum: the salt is exactly the time
  in milliseconds times 1000 plus the floor of the rounded product
  \<open>Math.random() * 1000\<close>, an integer of \<open>[0, 1000)\<close>.
\<close>

theorem deploySafe_salt:
  assumes "snd (deploySafe imp rt this props tr) = tr @ evs"
    and "CreateProxy cp \<in> set evs"
  shows "cp_saltNonce cp =
           (case Option.bind (safeDeploymentConfig props) saltNonce of
              Some n \<Rightarrow> n
            | None \<Rightarrow>
                round_to_double
                  (round_to_double (Date_now rt * 1000)
                   + Math_floor (fraction_times (Math_random rt) 1000)))
         \<and> (Option.bind (safeDeploymentConfig props) saltNonce = None
              \<and> \<bar>Date_now rt * 1000\<bar> + 1000 \<le> 2 ^ 53
              \<and> numerator (Math_random rt) = a * 2 ^ j \<and> a < 2 ^ 53
              \<and> numerator (Math_random rt) < 2 ^ scale (Math_random rt)
              \<longrightarrow> cp_saltNonce cp
                    = Date_now rt * 1000 + Math_floor (fraction_times (Math_random rt) 1000)
                  \<and> 0 \<le> Math_floor (fraction_times (Math_random rt) 1000)
                  \<and> Math_floor (fraction_times (Math_random rt) 1000) < 1000)"
proof -
  let ?k = "Math_floor (fraction_times (Math_random rt) 1000)"
  obtain res tr' where run: "deploySafe imp rt this props tr = (res, tr')"
    by (cases "deploySafe imp rt this props tr")
  with assms(1) have tr': "tr' = tr @ evs"
    by simp
  from run have salt: "cp_saltNonce cp =
           (case Option.bind (safeDeploymentConfig props) saltNonce of
              Some n \<Rightarrow> n
            | None \<Rightarrow> round_to_double (round_to_double (Date_now rt * 1000) + ?k))"
  proof (cases rule: deploySafe_cases)
    case (submitted adapter factoryContract safeContract signerAddress args initializer cp')
    from submitted(9) tr' assms(2) have "cp = cp'"
      by (auto split: sum.splits if_splits)
    with submitted(8) show ?thesis
      by simp
  qed (use tr' assms(2) in auto)
  have exact: "cp_saltNonce cp = Date_now rt * 1000 + ?k \<and> 0 \<le> ?k \<and> ?k < 1000"
    if default: "Option.bind (safeDeploymentConfig props) saltNonce = None"
      and early: "\<bar>Date_now rt * 1000\<bar> + 1000 \<le> 2 ^ 53"
      and double: "numerator (Math_random rt) = a * 2 ^ j" "a < 2 ^ 53"
      and below: "numerator (Math_random rt) < 2 ^ scale (Math_random rt)"
  proof -
    from double below have range: "0 \<le> ?k \<and> ?k < 1000"
      by (rule Math_floor_random_range)
    from early have "round_to_double (Date_now rt * 1000) = Date_now rt * 1000"
      by (intro round_to_double_exact) simp
    moreover from early range have
      "round_to_double (Date_now rt * 1000 + ?k) = Date_now rt * 1000 + ?k"
      by (intro round_to_double_exact) (simp, linarith)
    ultimately show ?thesis
      using salt default range by simp
  qed
  from salt exact show ?thesis
    by blast
qed

theorem deploySafe_salt_witness:
  "cp_saltNonce (example_proxy_props 1700000000000250 example_sender)
     = Date_now example_runtime * 1000 + 250
   \<and> Math_floor (fraction_times (Math_random example_runtime) 1000) = 250
   \<and> CreateProxy (example_proxy_props 1700000000000250 example_sender)
       \<in> set (snd (deploySafe example_imports example_runtime
                     (example_factory [''0xFactory'', ''0xSingleton'', ''0xProxy''])
                     (example_props [''0xA'', ''0xB''] 2 None None) []))"
proof -
  let ?cp = "example_proxy_props 1700000000000250 example_sender"
  let ?evs = "[GetSignerAddress, example_setup, CreateProxy ?cp,
               IsContractDeployed ''0xProxy'', SafeCreate example_safe_config]"
  let ?props = "example_props [''0xA'', ''0xB''] 2 None None"
  have run: "snd (deploySafe example_imports example_runtime
                    (example_factory [''0xFactory'', ''0xSingleton'', ''0xProxy''])
                    ?props []) = [] @ ?evs"
    by (simp add: deploy_defs run_defs example_defs Let_def round_to_double_def round53_def
        fraction_times_def Math_floor_def)
  have submitted: "CreateProxy ?cp \<in> set ?evs"
    by simp
  have early: "Option.bind (safeDeploymentConfig ?props) saltNonce = None
     \<and> \<bar>Date_now example_runtime * 1000\<bar> + 1000 \<le> 2 ^ 53
     \<and> numerator (Math_random example_runtime) = 1 * 2 ^ 0 \<and> (1::nat) < 2 ^ 53
     \<and> numerator (Math_random example_runtime) < 2 ^ scale (Math_random example_runtime)"
    by (simp add: example_defs)
  have floor: "Math_floor (fraction_times (Math_random example_runtime) 1000) = 250"
    by (simp add: example_defs round53_def fraction_times_def Math_floor_def)
  from deploySafe_salt [OF run submitted, of 1 0] early floor
  have "cp_saltNonce ?cp = Date_now example_runtime * 1000 + 250"
    by simp
  with floor run show ?thesis
    by simp
qed

text \<open>
  The claim as stated fails for a late clock. In the year 2255 the product
  \<open>Date.now() * 1000\<close> exceeds \<open>2 ^ 53\<close>; with a random part of 999 the sum is odd, is not
  a double, and rounds to the time times 1000 plus 1000, outside \<open>[0, 1000)\<close>.
\<close>

theorem deploySafe_salt_counterexample:
  "snd (deploySafe example_imports example_late_runtime
          (example_factory [''0xFactory'', ''0xSingleton'', ''0xProxy''])
          (example_props [''0xA'', ''0xB''] 2 None None) [])
   = [GetSignerAddress, example_setup,
      CreateProxy (example_proxy_props 9007199254742000 example_sender),
      IsContractDeployed ''0xProxy'', SafeCreate example_safe_config]
   \<and> Math_floor (fraction_times (Math_random example_late_runtime) 1000) = 999
   \<and> 9007199254742000 - Date_now example_late_runtime * 1000 = 1000"
  by (simp add: deploy_defs run_defs example_defs Let_def round_to_double_def round53_def
      fraction_times_def Math_floor_def bit_length.simps)

subsection \<open>Construction\<close>

text \<open>
  C7. \<open>create\<close> returns an instance only after the adapter has answered true to the
  code check of the proxy factory and to the code check of the singleton, and the instance
  then holds the adapter, the version and both contracts. When the code check of the proxy
  factory, or of the singleton, answers false, \<open>create\<close> fails with the error of that
  contract not being deployed, and makes no further call.
\<close>

theorem create_returns_verified_factory:
  assumes run: "create imp config tr = (res, tr')"
  shows "(\<forall>factory. res = Inr factory \<longrightarrow>
            (\<exists>factoryContract safeContract p1 p2.
                priv_ethAdapter factory = Some (ethAdapter config)
              \<and> priv_safeProxyFactoryContract factory = Some factoryContract
              \<and> priv_gnosisSafeContract factory = Some safeContract
              \<and> priv_safeVersion factory
                  = Some (case safeVersion config of
                            None \<Rightarrow> SAFE_LAST_VERSION imp | Some v \<Rightarrow> v)
              \<and> tr' = tr @ [GetChainId, GetSafeProxyFactoryContract p1,
                             IsContractDeployed (factory_getAddress factoryContract),
                             GetSafeContract p2,
                             IsContractDeployed (safe_getAddress safeContract)]
              \<and> isContractDeployed (ethAdapter config)
                    (tr @ [GetChainId, GetSafeProxyFactoryContract p1])
                    (factory_getAddress factoryContract) = Inr True
              \<and> isContractDeployed (ethAdapter config)
                    (tr @ [GetChainId, GetSafeProxyFactoryContract p1,
                           IsContractDeployed (factory_getAddress factoryContract),
                           GetSafeContract p2])
                    (safe_getAddress safeContract) = Inr True))
       \<and> (\<forall>p1 address rest.
              tr' = tr @ GetChainId # GetSafeProxyFactoryContract p1
                         # IsContractDeployed address # rest
            \<and> isContractDeployed (ethAdapter config)
                  (tr @ [GetChainId, GetSafeProxyFactoryContract p1]) address = Inr False
            \<longrightarrow> res = Inl (Error ''Safe Proxy Factory contract is not deployed in the current network'')
                \<and> rest = [])
       \<and> (\<forall>p1 address1 p2 address2 rest.
              tr' = tr @ GetChainId # GetSafeProxyFactoryContract p1
                         # IsContractDeployed address1 # GetSafeContract p2
                         # IsContractDeployed address2 # rest
            \<and> isContractDeployed (ethAdapter config)
                  (tr @ [GetChainId, GetSafeProxyFactoryContract p1,
                         IsContractDeployed address1, GetSafeContract p2]) address2
                = Inr False
            \<longrightarrow> res = Inl (Error ''Safe Proxy contract is not deployed in the current network'')
                \<and> rest = [])"
  using run
proof (cases rule: create_cases)
  case (created p1 factoryContract p2 safeContract)
  then show ?thesis
    by auto
qed simp_all

theorem create_returns_verified_factory_witness:
  "create example_imports (example_config [''0xFactory'', ''0xSingleton''] None) []
   = (Inr (example_factory [''0xFactory'', ''0xSingleton'']),
      [GetChainId, example_factory_lookup, IsContractDeployed ''0xFactory'',
       example_singleton_lookup, IsContractDeployed ''0xSingleton''])
   \<and> create example_imports (example_config [''0xSingleton''] None) []
     = (Inl (Error ''Safe Proxy Factory contract is not deployed in the current network''),
        [GetChainId, example_factory_lookup, IsContractDeployed ''0xFactory''])
   \<and> create example_imports (example_config [''0xFactory''] None) []
     = (Inl (Error ''Safe Proxy contract is not deployed in the current network''),
        [GetChainId, example_factory_lookup, IsContractDeployed ''0xFactory'',
         example_singleton_lookup, IsContractDeployed ''0xSingleton''])"
proof -
  have created:
    "create example_imports (example_config [''0xFactory'', ''0xSingleton''] None) []
     = (Inr (example_factory [''0xFactory'', ''0xSingleton'']),
        [GetChainId, example_factory_lookup, IsContractDeployed ''0xFactory'',
         example_singleton_lookup, IsContractDeployed ''0xSingleton''])"
    by (simp add: create_defs run_defs example_defs Let_def)
  have no_factory:
    "snd (create example_imports (example_config [''0xSingleton''] None) [])
     = [] @ GetChainId # example_factory_lookup # IsContractDeployed ''0xFactory'' # []"
    "isContractDeployed (ethAdapter (example_config [''0xSingleton''] None))
       ([] @ [GetChainId, example_factory_lookup]) ''0xFactory'' = Inr False"
    by (simp_all add: create_defs run_defs example_defs Let_def)
  have no_singleton:
    "snd (create example_imports (example_config [''0xFactory''] None) [])
     = [] @ GetChainId # example_factory_lookup # IsContractDeployed ''0xFactory''
          # example_singleton_lookup # IsContractDeployed ''0xSingleton'' # []"
    "isContractDeployed (ethAdapter (example_config [''0xFactory''] None))
       ([] @ [GetChainId, example_factory_lookup, IsContractDeployed ''0xFactory'',
              example_singleton_lookup]) ''0xSingleton'' = Inr False"
    by (simp_all add: create_defs run_defs example_defs Let_def)
  from create_returns_verified_factory [OF surjective_pairing] no_factory
  have "fst (create example_imports (example_config [''0xSingleton''] None) [])
          = Inl (Error ''Safe Proxy Factory contract is not deployed in the current network'')"
    unfolding example_factory_lookup_def by blast
  moreover
  from create_returns_verified_factory [OF surjective_pairing] no_singleton
  have "fst (create example_imports (example_config [''0xFactory''] None) [])
          = Inl (Error ''Safe Proxy contract is not deployed in the current network'')"
    unfolding example_factory_lookup_def example_singleton_lookup_def by blast
  moreover note create_returns_verified_factory [OF created]
  ultimately show ?thesis
    using created no_factory(1) no_singleton(1)
    by (simp add: prod_eq_iff)
qed

subsection \<open>The errors raised\<close>

text \<open>
  C8. The claim: the failure of the singleton's code check, of the proxy factory's code
  check and of the check after the proxy creation raise three distinguishable errors. In
  the code the first and the third are the same \<open>Error\<close> with the same message; only
  the proxy factory's differs.
\<close>

theorem not_deployed_errors_coincide:
  "fst (create example_imports (example_config [''0xFactory''] None) [])
     = Inl (Error ''Safe Proxy contract is not deployed in the current network'')
   \<and> fst (deploySafe example_imports example_runtime
            (example_factory [''0xFactory'', ''0xSingleton''])
            (example_props [''0xA'', ''0xB''] 2 (Some (Some 42)) None) [])
     = Inl (Error ''Safe Proxy contract is not deployed in the current network'')
   \<and> fst (create example_imports (example_config [''0xSingleton''] None) [])
     = Inl (Error ''Safe Proxy Factory contract is not deployed in the current network'')"
  by (simp add: create_defs deploy_defs run_defs example_defs Let_def)

subsection \<open>A salt of zero\<close>

text \<open>
  C9. A supplied \<open>saltNonce\<close> of 0 is the salt of the proxy creation, and so is any
  supplied \<open>saltNonce\<close>: the default is taken only when the deployment configuration or
  its \<open>saltNonce\<close> is missing.
\<close>

theorem deploySafe_zero_salt:
  assumes "snd (deploySafe imp rt this props tr) = tr @ evs"
    and "CreateProxy cp \<in> set evs"
    and "safeDeploymentConfig props = Some deployment"
  shows "(saltNonce deployment = Some 0 \<longrightarrow> cp_saltNonce cp = 0)
         \<and> (\<forall>n. saltNonce deployment = Some n \<longrightarrow> cp_saltNonce cp = n)"
proof -
  obtain res tr' where run: "deploySafe imp rt this props tr = (res, tr')"
    by (cases "deploySafe imp rt this props tr")
  with assms(1) have tr': "tr' = tr @ evs"
    by simp
  from run show ?thesis
  proof (cases rule: deploySafe_cases)
    case (submitted adapter factoryContract safeContract signerAddress args initializer cp')
    from submitted(9) tr' assms(2) have "cp = cp'"
      by (auto split: sum.splits if_splits)
    with submitted(8) assms(3) show ?thesis
      by simp
  qed (use tr' assms(2) in auto)
qed

theorem deploySafe_zero_salt_witness:
  "cp_saltNonce (example_proxy_props 0 example_sender) = 0
   \<and> snd (deploySafe example_imports example_runtime
            (example_factory [''0xFactory'', ''0xSingleton'', ''0xProxy''])
            (example_props [''0xA'', ''0xB''] 2 (Some (Some 0)) None) [])
     = [GetSignerAddress, example_setup, CreateProxy (example_proxy_props 0 example_sender),
        IsContractDeployed ''0xProxy'', SafeCreate example_safe_config]"
proof -
  let ?cp = "example_proxy_props 0 example_sender"
  let ?evs = "[GetSignerAddress, example_setup, CreateProxy ?cp,
               IsContractDeployed ''0xProxy'', SafeCreate example_safe_config]"
  let ?props = "example_props [''0xA'', ''0xB''] 2 (Some (Some 0)) None"
  have run: "snd (deploySafe example_imports example_runtime
                    (example_factory [''0xFactory'', ''0xSingleton'', ''0xProxy''])
                    ?props []) = [] @ ?evs"
    by (simp add: deploy_defs run_defs example_defs Let_def)
  have submitted: "CreateProxy ?cp \<in> set ?evs"
    by simp
  have supplied: "safeDeploymentConfig ?props = Some \<lparr> saltNonce = Some 0 \<rparr>"
    by (simp add: example_defs)
  from deploySafe_zero_salt [OF run submitted supplied] run show ?thesis
    by simp
qed

subsection \<open>Falsy gas options\<close>



end
